theory Spec2Isabelle
  imports Complex_Main
begin

section \<open>JavaScript strings\<close>

text \<open>
  A JavaScript string is a sequence of UTF-16 code units; \<open>length\<close> counts code units.
  String constants of the source are written as HOL string literals and converted
  with \<open>js\<close>.
\<close>

type_synonym code_unit = nat
type_synonym jsstring = "code_unit list"

definition js :: "string \<Rightarrow> jsstring" where
  "js s = map of_char s"

definition is_space :: "code_unit \<Rightarrow> bool" where
  \<comment> \<open>WhiteSpace and LineTerminator of ECMAScript: the class \<open>\s\<close>, and what \<open>trim\<close> strips.\<close>
  "is_space c \<longleftrightarrow>
     c \<in> set [9, 10, 11, 12, 13, 32, 160, 5760, 8232, 8233, 8239, 8287, 12288, 65279]
     \<or> (8192 \<le> c \<and> c \<le> 8202)"

definition is_word :: "code_unit \<Rightarrow> bool" where
  \<comment> \<open>The class \<open>\w\<close>: \<open>[A-Za-z0-9_]\<close>.\<close>
  "is_word c \<longleftrightarrow>
     (65 \<le> c \<and> c \<le> 90) \<or> (97 \<le> c \<and> c \<le> 122) \<or> (48 \<le> c \<and> c \<le> 57) \<or> c = 95"

definition is_line_terminator :: "code_unit \<Rightarrow> bool" where
  "is_line_terminator c \<longleftrightarrow> c = 10 \<or> c = 13 \<or> c = 8232 \<or> c = 8233"

definition trim :: "jsstring \<Rightarrow> jsstring" where
  "trim s = rev (dropWhile is_space (rev (dropWhile is_space s)))"

definition startsWith :: "jsstring \<Rightarrow> jsstring \<Rightarrow> bool" where
  "startsWith s p \<longleftrightarrow> take (length p) s = p"

fun includes_str :: "jsstring \<Rightarrow> jsstring \<Rightarrow> bool" where
  "includes_str [] p = (p = [])"
| "includes_str (c # cs) p = (startsWith (c # cs) p \<or> includes_str cs p)"

fun replace_first :: "jsstring \<Rightarrow> jsstring \<Rightarrow> jsstring \<Rightarrow> jsstring" where
  \<comment> \<open>\<open>s.replace(p, r)\<close> with a string pattern: only the first occurrence is replaced.\<close>
  "replace_first [] p r = (if p = [] then r else [])"
| "replace_first (c # cs) p r =
     (if startsWith (c # cs) p then r @ drop (length p) (c # cs)
      else c # replace_first cs p r)"

fun code_points :: "jsstring \<Rightarrow> nat list" where
  \<comment> \<open>Decoding as a regular expression with the \<open>u\<close> flag reads the string: a high
      surrogate followed by a low surrogate is one code point, any other unit stands
      for itself.\<close>
  "code_points (h # l # cs) =
     (if 55296 \<le> h \<and> h \<le> 56319 \<and> 56320 \<le> l \<and> l \<le> 57343
      then (65536 + (h - 55296) * 1024 + (l - 56320)) # code_points cs
      else h # code_points (l # cs))"
| "code_points cs = cs"

section \<open>Regular expressions\<close>

text \<open>
  The fragment of ECMAScript regular expressions that the source uses: literals,
  alternation, sequence, a greedy quantifier \<open>{n,}\<close> on a character class (\<open>*\<close> is
  \<open>{0,}\<close>, \<open>+\<close> is \<open>{1,}\<close>), the assertion \<open>\b\<close>, and \<open>$\<close> under the \<open>m\<close> flag.
  \<open>rmatch\<close> is the backtracking matcher: it returns the end indices of all matches
  that start at index \<open>i\<close>, in the order in which backtracking tries them, so the
  head of the list is the match that ECMAScript reports.
\<close>

datatype cclass = Space | WordChar | OneOf jsstring

datatype regex =
    Lit jsstring
  | Rep nat cclass
  | Seq regex regex
  | Alt regex regex
  | WordB
  | Eol

fun in_class :: "cclass \<Rightarrow> code_unit \<Rightarrow> bool" where
  "in_class Space c = is_space c"
| "in_class WordChar c = is_word c"
| "in_class (OneOf cs) c = (c \<in> set cs)"

definition canonicalize :: "bool \<Rightarrow> code_unit \<Rightarrow> code_unit" where
  \<comment> \<open>Canonicalize of ECMAScript without the \<open>u\<close> flag, for patterns made of ASCII
      characters: a code unit of 128 or more never canonicalizes to an ASCII one, so
      against an ASCII pattern character only the two ASCII cases of a letter match.\<close>
  "canonicalize ic c = (if ic \<and> 97 \<le> c \<and> c \<le> 122 then c - 32 else c)"

fun rmatch :: "bool \<Rightarrow> regex \<Rightarrow> jsstring \<Rightarrow> nat \<Rightarrow> nat list" where
  "rmatch ic (Lit l) s i =
     (if map (canonicalize ic) (take (length l) (drop i s)) = map (canonicalize ic) l
      then [i + length l] else [])"
| "rmatch ic (Rep n c) s i =
     (let m = length (takeWhile (in_class c) (drop i s))
      in map (\<lambda>k. i + k) (rev [n ..< Suc m]))"
| "rmatch ic (Seq a b) s i = concat (map (rmatch ic b s) (rmatch ic a s i))"
| "rmatch ic (Alt a b) s i = rmatch ic a s i @ rmatch ic b s i"
| "rmatch ic WordB s i =
     (let a = (0 < i \<and> i \<le> length s \<and> is_word (s ! (i - 1)));
          b = (i < length s \<and> is_word (s ! i))
      in if a \<noteq> b then [i] else [])"
| "rmatch ic Eol s i =
     (if i = length s \<or> (i < length s \<and> is_line_terminator (s ! i)) then [i] else [])"

text \<open>
  A RegExp object: the pattern, its flags, and the mutable \<open>lastIndex\<close> that
  \<open>test\<close> reads and writes when the \<open>g\<close> flag is set.
\<close>

record regexp =
  pattern :: regex
  ignoreCase :: bool
  global :: bool
  lastIndex :: nat

definition regexp :: "regex \<Rightarrow> bool \<Rightarrow> bool \<Rightarrow> regexp" where
  \<comment> \<open>Evaluating a regular expression literal: a fresh object with \<open>lastIndex = 0\<close>.\<close>
  "regexp r ic g = \<lparr>pattern = r, ignoreCase = ic, global = g, lastIndex = 0\<rparr>"

definition exec_from :: "regexp \<Rightarrow> jsstring \<Rightarrow> nat \<Rightarrow> (nat \<times> nat) option" where
  \<comment> \<open>RegExpBuiltinExec: the first index from \<open>i\<close> on, up to the length of the string,
      at which the pattern matches, with the end of that match.\<close>
  "exec_from re s i =
     (case find (\<lambda>p. rmatch (ignoreCase re) (pattern re) s p \<noteq> []) [i ..< Suc (length s)] of
        None \<Rightarrow> None
      | Some p \<Rightarrow> Some (p, hd (rmatch (ignoreCase re) (pattern re) s p)))"

definition test :: "regexp \<Rightarrow> jsstring \<Rightarrow> regexp \<times> bool" where
  \<comment> \<open>\<open>re.test(s)\<close>: with the \<open>g\<close> flag the search starts at \<open>lastIndex\<close>, a match moves
      \<open>lastIndex\<close> to its end and a failure resets it to 0.\<close>
  "test re s =
     (case exec_from re s (if global re then lastIndex re else 0) of
        None \<Rightarrow> (if global re then re\<lparr>lastIndex := 0\<rparr> else re, False)
      | Some (p, e) \<Rightarrow> (if global re then re\<lparr>lastIndex := e\<rparr> else re, True))"

lemma rmatch_ge: "e \<in> set (rmatch ic r s i) \<Longrightarrow> i \<le> e"
proof (induction r arbitrary: i e)
  case (Seq a b)
  then obtain k where "k \<in> set (rmatch ic a s i)" and "e \<in> set (rmatch ic b s k)"
    by auto
  with Seq.IH have "i \<le> k" and "k \<le> e"
    by blast+
  then show ?case
    by simp
qed (auto simp: Let_def split: if_splits)

lemma find_SomeD: "find P xs = Some x \<Longrightarrow> x \<in> set xs \<and> P x"
  by (induction xs) (auto split: if_splits)

lemma exec_from_bounds:
  assumes "exec_from re s i = Some (p, e)"
  shows "i \<le> p \<and> p \<le> length s \<and> p \<le> e"
proof -
  let ?m = "\<lambda>p. rmatch (ignoreCase re) (pattern re) s p"
  from assms have f: "find (\<lambda>p. ?m p \<noteq> []) [i ..< Suc (length s)] = Some p" and e: "e = hd (?m p)"
    by (auto simp del: upt_Suc simp: exec_from_def split: option.splits)
  from find_SomeD [OF f] have "p \<in> set [i ..< Suc (length s)]" and ne: "?m p \<noteq> []"
    by blast+
  then have "i \<le> p" and "p \<le> length s"
    by (simp_all del: upt_Suc)
  moreover from ne e have "e \<in> set (?m p)"
    by simp
  then have "p \<le> e"
    by (rule rmatch_ge)
  ultimately show ?thesis
    by simp
qed

function match_all :: "regexp \<Rightarrow> jsstring \<Rightarrow> nat \<Rightarrow> (nat \<times> nat) list" where
  \<comment> \<open>The successive matches that \<open>s.match(re)\<close> and \<open>s.replace(re, r)\<close> collect for a
      regular expression with the \<open>g\<close> flag, as (start, end) pairs; after an empty
      match the search moves on by one code unit.\<close>
  "match_all re s i =
     (case exec_from re s i of
        None \<Rightarrow> []
      | Some (p, e) \<Rightarrow> (p, e) # match_all re s (if e = p then Suc e else e))"
  by pat_completeness auto
termination
proof (relation "measure (\<lambda>(re, s, i). Suc (length s) - i)")
  fix re :: regexp and s i x p e
  assume "exec_from re s i = Some x" and "(p, e) = x"
  then have "i \<le> p \<and> p \<le> length s \<and> p \<le> e"
    using exec_from_bounds [of re s i p e] by simp
  then show "((re, s, if e = p then Suc e else e), re, s, i) \<in> measure (\<lambda>(re, s, i). Suc (length s) - i)"
    by auto
qed simp

fun splice :: "jsstring \<Rightarrow> jsstring \<Rightarrow> nat \<Rightarrow> (nat \<times> nat) list \<Rightarrow> jsstring" where
  \<comment> \<open>Building the result of a replacement: the text between the matches is kept and
      each match is replaced by \<open>r\<close> (the replacement strings of the source contain no
      \<open>$\<close>, so \<open>r\<close> is inserted as it is).\<close>
  "splice s r pos [] = drop pos s"
| "splice s r pos ((p, e) # ms) =
     (if pos \<le> p then take (p - pos) (drop pos s) @ r @ splice s r e ms
      else splice s r pos ms)"

definition replace_regexp :: "regexp \<Rightarrow> jsstring \<Rightarrow> jsstring \<Rightarrow> regexp \<times> jsstring" where
  \<comment> \<open>\<open>s.replace(re, r)\<close>. With the \<open>g\<close> flag \<open>lastIndex\<close> is set to 0 first, every match
      is replaced, and the failing last search leaves \<open>lastIndex\<close> at 0.\<close>
  "replace_regexp re s r =
     (if global re then (re\<lparr>lastIndex := 0\<rparr>, splice s r 0 (match_all re s 0))
      else (re, case exec_from re s 0 of None \<Rightarrow> s | Some m \<Rightarrow> splice s r 0 [m]))"

definition match_count :: "regexp \<Rightarrow> jsstring \<Rightarrow> nat" where
  \<comment> \<open>\<open>(s.match(re) || []).length\<close> for a regular expression literal with the \<open>g\<close> flag.\<close>
  "match_count re s = length (match_all re s 0)"

function split_loop :: "regexp \<Rightarrow> jsstring \<Rightarrow> nat \<Rightarrow> nat \<Rightarrow> jsstring list" where
  \<comment> \<open>The loop of \<open>s.split(re)\<close> on a non-empty string: \<open>p\<close> is the start of the current
      piece and \<open>q\<close> the index at which a separator is looked for.\<close>
  "split_loop re s p q =
     (if q < length s then
        (case rmatch (ignoreCase re) (pattern re) s q of
           [] \<Rightarrow> split_loop re s p (Suc q)
         | e # _ \<Rightarrow>
             (if min e (length s) = p then split_loop re s p (Suc q)
              else take (q - p) (drop p s) # split_loop re s (min e (length s)) (min e (length s))))
      else [drop p s])"
  by pat_completeness auto
termination
proof (relation "measure (\<lambda>(re, s, p, q). 2 * (length s - q) + (if p = q then 0 else 1))")
  fix re :: regexp and s p q e es
  assume q: "q < length s" and m: "rmatch (ignoreCase re) (pattern re) s q = e # es"
    and ne: "min e (length s) \<noteq> p"
  from m have "e \<in> set (rmatch (ignoreCase re) (pattern re) s q)"
    by simp
  then have "q \<le> e"
    by (rule rmatch_ge)
  with q ne show "((re, s, min e (length s), min e (length s)), re, s, p, q)
      \<in> measure (\<lambda>(re, s, p, q). 2 * (length s - q) + (if p = q then 0 else 1))"
    by (auto simp: min_def)
qed auto

definition split :: "regexp \<Rightarrow> jsstring \<Rightarrow> jsstring list" where
  \<comment> \<open>\<open>s.split(re)\<close> for a pattern without capture groups.\<close>
  "split re s =
     (if s = [] then (if rmatch (ignoreCase re) (pattern re) s 0 \<noteq> [] then [] else [s])
      else split_loop re s 0 0)"

section \<open>The external store\<close>

text \<open>
  The rows the Access Gate reads. \<open>subscription_tier\<close> is typed
  \<open>'free' | 'pro' | 'enterprise'\<close> in the source and the column is constrained to these
  three values by the schema, but it is nullable: \<open>None\<close> is the absent tier. An
  \<open>api_key\<close> row carries the joined profile of its owner, as the queries select it
  (\<open>profiles!inner\<close>). Times are milliseconds since the epoch.
\<close>

datatype tier = Free | Pro | Enterprise

record profile =
  api_calls_count :: int
  api_calls_limit :: int
  subscription_tier :: "tier option"

record api_key =
  key_id :: jsstring
  user_id :: jsstring
  key :: jsstring
  is_active :: bool
  profiles :: profile

record usage_log =
  api_key_id :: jsstring
  created_at :: int

text \<open>
  A query either returns data, returns an error object (with no data), or throws.
  The store says for each of the three queries of the gate which of these happens.
\<close>

datatype fault = NoFault | ReturnsError | Throws

datatype 'a reply = Data 'a | Error | Thrown

record store =
  configured :: bool
  api_keys :: "api_key list"
  usage_logs :: "usage_log list"
  validate_fault :: fault
  rate_key_fault :: fault
  rate_usage_fault :: fault

definition respond :: "fault \<Rightarrow> 'a reply \<Rightarrow> 'a reply" where
  "respond f r = (case f of NoFault \<Rightarrow> r | ReturnsError \<Rightarrow> Error | Throws \<Rightarrow> Thrown)"

definition single :: "'a list \<Rightarrow> 'a reply" where
  \<comment> \<open>\<open>.single()\<close>: exactly one row, or an error.\<close>
  "single rows = (case rows of [r] \<Rightarrow> Data r | _ \<Rightarrow> Error)"

section \<open>The Access Gate\<close>

record auth_result =
  valid :: bool
  keyData :: "api_key option"
  error :: "string option"

definition invalid :: "string \<Rightarrow> auth_result" where
  "invalid e = \<lparr>valid = False, keyData = None, error = Some e\<rparr>"

definition validateApiKey :: "store \<Rightarrow> jsstring \<Rightarrow> auth_result" where
  "validateApiKey st apiKey =
     (if \<not> configured st then invalid ''Database not configured''
      else if apiKey = [] then invalid ''API key required''
      else
        let cleanKey = trim (replace_first apiKey (js ''Bearer '') []) in
        if \<not> startsWith cleanKey (js ''sk_'') then invalid ''Invalid API key format''
        else
          (case respond (validate_fault st)
                  (single [k \<leftarrow> api_keys st. key k = cleanKey \<and> is_active k]) of
             Thrown \<Rightarrow> invalid ''Failed to validate API key''
           | Error \<Rightarrow> invalid ''Invalid API key''
           | Data kd \<Rightarrow>
               let profile = profiles kd in
               if api_calls_limit profile \<le> api_calls_count profile
               then invalid ''API limit exceeded. Please upgrade your plan.''
               else \<lparr>valid = True, keyData = Some kd, error = None\<rparr>))"

record limits =
  perMinute :: int
  perHour :: int

fun rateLimits :: "tier \<Rightarrow> limits" where
  "rateLimits Free = \<lparr>perMinute = 10, perHour = 100\<rparr>"
| "rateLimits Pro = \<lparr>perMinute = 60, perHour = 1000\<rparr>"
| "rateLimits Enterprise = \<lparr>perMinute = 1000, perHour = 10000\<rparr>"

record rate_result =
  allowed :: bool
  limit :: "int option"
  remaining :: "int option"

definition checkRateLimit :: "store \<Rightarrow> int \<Rightarrow> jsstring \<Rightarrow> rate_result" where
  \<comment> \<open>The second argument is the value of \<open>Date.now()\<close> inside the function.\<close>
  "checkRateLimit st now apiKey =
     (if \<not> configured st then \<lparr>allowed = True, limit = None, remaining = None\<rparr>
      else
        (case respond (rate_key_fault st) (single [k \<leftarrow> api_keys st. key k = apiKey]) of
           Thrown \<Rightarrow> \<lparr>allowed = True, limit = None, remaining = None\<rparr>
         | Error \<Rightarrow> \<lparr>allowed = False, limit = None, remaining = None\<rparr>
         | Data kd \<Rightarrow>
             let lim = (case subscription_tier (profiles kd) of
                          Some t \<Rightarrow> rateLimits t
                        | None \<Rightarrow> rateLimits Free);
                 oneMinuteAgo = now - 60000
             in
             (case respond (rate_usage_fault st)
                     (Data [l \<leftarrow> usage_logs st.
                              api_key_id l = key_id kd \<and> oneMinuteAgo \<le> created_at l]) of
                Thrown \<Rightarrow> \<lparr>allowed = True, limit = None, remaining = None\<rparr>
              | Error \<Rightarrow> \<lparr>allowed = True, limit = None, remaining = None\<rparr>
              | Data recentUsage \<Rightarrow>
                  let usageCount = int (length recentUsage) in
                  if perMinute lim \<le> usageCount
                  then \<lparr>allowed = False, limit = Some (perMinute lim), remaining = Some 0\<rparr>
                  else \<lparr>allowed = True, limit = Some (perMinute lim),
                        remaining = Some (perMinute lim - usageCount)\<rparr>)))"

section \<open>The platform\<close>

text \<open>
  Two built-ins of the JavaScript platform are parameters of the model, since their
  results depend on the Unicode case mapping tables and on IEEE 754 rounding:
  \<open>String.prototype.toLowerCase\<close>, and the expression
  \<open>Math.round((a / b) * 100)\<close> evaluated in double precision. Every theorem below holds
  for all values of the two.
\<close>

record platform =
  toLowerCase :: "jsstring \<Rightarrow> jsstring"
  round_percent :: "nat \<Rightarrow> nat \<Rightarrow> int"

text \<open>
  For the examples, the second of them as IEEE 754 computes it. \<open>double x\<close> is the
  double nearest to a rational \<open>x > 0\<close> in the normal range (53 significant bits,
  ties to even); the quotient of the two counts is rounded to a double, its product
  with 100 is rounded again, and \<open>Math.round\<close> takes the nearest integer, a half
  going up.
\<close>

fun log2_floor :: "nat \<Rightarrow> nat" where
  "log2_floor n = (if n < 2 then 0 else Suc (log2_floor (n div 2)))"

definition pow2 :: "int \<Rightarrow> rat" where
  "pow2 e = (if 0 \<le> e then 2 ^ nat e else 1 / 2 ^ nat (- e))"

definition exponent :: "rat \<Rightarrow> int" where
  \<comment> \<open>The \<open>e\<close> with \<open>2 ^ e \<le> x < 2 ^ (e + 1)\<close>, for \<open>x > 0\<close>.\<close>
  "exponent x =
     (if 1 \<le> x then int (log2_floor (nat \<lfloor>x\<rfloor>))
      else - int (Suc (log2_floor (nat \<lceil>1 / x\<rceil> - 1))))"

definition round_even :: "rat \<Rightarrow> int" where
  "round_even r =
     (let f = \<lfloor>r\<rfloor>; d = r - of_int f
      in if d < 1 / 2 then f else if 1 / 2 < d then f + 1 else if even f then f else f + 1)"

definition double :: "rat \<Rightarrow> rat" where
  "double x =
     (if x \<le> 0 then 0
      else let q = pow2 (exponent x - 52) in of_int (round_even (x / q)) * q)"

definition ieee_round_percent :: "nat \<Rightarrow> nat \<Rightarrow> int" where
  \<comment> \<open>\<open>Math.round((a / b) * 100)\<close>\<close>
  "ieee_round_percent a b = \<lfloor>double (double (of_nat a / of_nat b) * 100) + 1 / 2\<rfloor>"

section \<open>The rule tables\<close>

fun alts :: "regex list \<Rightarrow> regex" where
  "alts [] = Lit []"
| "alts [r] = r"
| "alts (r # rs) = Alt r (alts rs)"

fun spaced :: "string list \<Rightarrow> regex" where
  \<comment> \<open>Words separated by \<open>\s*\<close>.\<close>
  "spaced [] = Lit []"
| "spaced [w] = Lit (js w)"
| "spaced (w # ws) = Seq (Lit (js w)) (Seq (Rep 0 Space) (spaced ws))"

definition bounded :: "regex \<Rightarrow> regex" where
  \<comment> \<open>\<open>\b(...)\b\<close>\<close>
  "bounded r = Seq WordB (Seq r WordB)"

definition INAPPROPRIATE_PATTERNS :: "regexp list" where
  \<comment> \<open>The value of the module-level table when the module is loaded.\<close>
  "INAPPROPRIATE_PATTERNS =
     [regexp (bounded (alts [spaced [''hate''], spaced [''violence''], spaced [''abuse''],
                             spaced [''harassment'']])) True True,
      regexp (bounded (alts [spaced [''spam''], spaced [''follow4follow''], spaced [''f4f''],
                             spaced [''l4l'']])) True True,
      regexp (bounded (alts [spaced [''click'', ''link''], spaced [''bio'', ''link''],
                             spaced [''dm'', ''me'']])) True True,
      regexp (bounded (alts [spaced [''free'', ''followers''],
                             spaced [''buy'', ''followers'']])) True True]"

definition SPAM_INDICATORS :: "string list" where
  "SPAM_INDICATORS =
     [''DM for collab'', ''Check my bio'', ''Link in bio'', ''100% real'', ''No scam'',
      ''Get rich quick'']"

definition misleadingPatterns :: "regexp list" where
  "misleadingPatterns =
     [regexp (Seq (Lit (js ''guaranteed''))
                (Seq (Rep 0 Space)
                   (alts [spaced [''results''], spaced [''success''], spaced [''money'']])))
        True True,
      regexp (bounded (alts [spaced [''cure''], spaced [''miracle''],
                             spaced [''instant'', ''results'']])) True True,
      regexp (bounded (alts [spaced [''medical'', ''advice''],
                             spaced [''financial'', ''advice'']])) True True]"

definition ctaPatterns :: "regexp list" where
  "ctaPatterns =
     [regexp (bounded (alts [spaced [''comment''], spaced [''share''], spaced [''like''],
                             spaced [''follow''], spaced [''tag''], spaced [''save'']]))
        True True,
      regexp (bounded (alts [spaced [''let me know''], spaced [''thoughts''],
                             spaced [''agree''], spaced [''disagree'']])) True True,
      regexp (Seq (Lit (js ''?'')) Eol) False False]"

definition trending :: "jsstring list" where
  "trending = map js [''#reels'', ''#instagram'', ''#viral'', ''#explore'', ''#instagood'']"

definition in_range :: "nat \<Rightarrow> nat \<Rightarrow> nat \<Rightarrow> bool" where
  "in_range lo hi c \<longleftrightarrow> lo \<le> c \<and> c \<le> hi"

definition spam_emoji :: "nat \<Rightarrow> bool" where
  \<comment> \<open>The five code point ranges of the emoji expression of the spam check.\<close>
  "spam_emoji c \<longleftrightarrow>
     in_range 0x1F600 0x1F64F c \<or> in_range 0x1F300 0x1F5FF c \<or> in_range 0x1F680 0x1F6FF c
     \<or> in_range 0x2600 0x26FF c \<or> in_range 0x2700 0x27BF c"

definition engagement_emoji :: "nat \<Rightarrow> bool" where
  "engagement_emoji c \<longleftrightarrow> in_range 0x1F600 0x1F64F c \<or> in_range 0x1F300 0x1F5FF c"

definition emoji_count :: "(nat \<Rightarrow> bool) \<Rightarrow> jsstring \<Rightarrow> nat" where
  \<comment> \<open>\<open>(s.match(/[...]/gu) || []).length\<close> for one class of code points: with the \<open>u\<close>
      flag the search proceeds by code points.\<close>
  "emoji_count cls s = length (filter cls (code_points s))"

section \<open>The Scorer\<close>

fun cta_loop :: "regexp list \<Rightarrow> jsstring \<Rightarrow> int \<Rightarrow> int" where
  "cta_loop [] c sc = sc"
| "cta_loop (p # ps) c sc = (if snd (test p c) then sc + 10 else cta_loop ps c sc)"

definition calculateEngagementScore :: "jsstring \<Rightarrow> jsstring list \<Rightarrow> int" where
  "calculateEngagementScore c hs =
     (let sc0 = cta_loop ctaPatterns c 50;
          sc1 = (if 100 \<le> length c \<and> length c \<le> 150 then sc0 + 20
                 else if 50 \<le> length c \<and> length c \<le> 200 then sc0 + 10 else sc0);
          sc2 = (if 5 \<le> length hs \<and> length hs \<le> 10 then sc1 + 15
                 else if 3 \<le> length hs \<and> length hs \<le> 15 then sc1 + 10 else sc1);
          emojiCount = emoji_count engagement_emoji c;
          sc3 = (if 1 \<le> emojiCount \<and> emojiCount \<le> 3 then sc2 + 5 else sc2)
      in min 100 sc3)"

definition sentences :: "jsstring \<Rightarrow> jsstring list" where
  "sentences c =
     filter (\<lambda>s. 0 < length (trim s)) (split (regexp (Rep 1 (OneOf (js ''.!?''))) False False) c)"

definition words :: "jsstring \<Rightarrow> jsstring list" where
  "words c = filter (\<lambda>w. 0 < length w) (split (regexp (Rep 1 Space) False False) c)"

definition avgWordsPerSentence :: "jsstring \<Rightarrow> rat" where
  \<comment> \<open>The quotient is computed in double precision in the source. Both operands are
      integers bounded by the length of the caption, for which the comparisons of the
      rounded quotient with 5, 10, 15 and 20 agree with those of the exact quotient.\<close>
  "avgWordsPerSentence c = of_nat (length (words c)) / of_nat (max 1 (length (sentences c)))"

definition calculateReadabilityScore :: "jsstring \<Rightarrow> int" where
  "calculateReadabilityScore c =
     (if 10 \<le> avgWordsPerSentence c \<and> avgWordsPerSentence c \<le> 15 then 90
      else if 5 \<le> avgWordsPerSentence c \<and> avgWordsPerSentence c \<le> 20 then 70
      else 50)"

fun relevance_loop :: "platform \<Rightarrow> jsstring list \<Rightarrow> jsstring list \<Rightarrow> nat \<Rightarrow> nat" where
  "relevance_loop pf captionWords [] relevantCount = relevantCount"
| "relevance_loop pf captionWords (hashtag # hs) relevantCount =
     (let cleanHashtag = toLowerCase pf (replace_first hashtag (js ''#'') [])
      in relevance_loop pf captionWords hs
           (if list_ex (\<lambda>word. includes_str word cleanHashtag \<or> includes_str cleanHashtag word)
                 captionWords
            then Suc relevantCount else relevantCount))"

definition calculateHashtagRelevance :: "platform \<Rightarrow> jsstring \<Rightarrow> jsstring list \<Rightarrow> int" where
  "calculateHashtagRelevance pf c hs =
     (if length hs = 0 then 50
      else
        let captionWords = split (regexp (Rep 1 Space) False False) (toLowerCase pf c)
        in round_percent pf (relevance_loop pf captionWords hs 0) (length hs))"

section \<open>The Suggestion Generator\<close>

fun unique_loop :: "jsstring list \<Rightarrow> jsstring list \<Rightarrow> jsstring list" where
  \<comment> \<open>\<open>[...new Set(xs)]\<close>: the first occurrence of each value, in insertion order.\<close>
  "unique_loop seen [] = seen"
| "unique_loop seen (x # xs) = unique_loop (if x \<in> set seen then seen else seen @ [x]) xs"

fun trending_loop :: "jsstring list \<Rightarrow> jsstring list \<Rightarrow> jsstring list" where
  "trending_loop [] optimized = optimized"
| "trending_loop (trend # ts) optimized =
     trending_loop ts
       (if length optimized < 30 \<and> trend \<notin> set optimized then optimized @ [trend]
        else optimized)"

definition optimizeHashtags :: "platform \<Rightarrow> jsstring list \<Rightarrow> jsstring \<Rightarrow> jsstring list" where
  "optimizeHashtags pf hs c =
     (let unique = unique_loop [] (map (toLowerCase pf) hs);
          formatted = map (\<lambda>h. if startsWith h (js ''#'') then h else js ''#'' @ h) unique;
          optimized = take 30 formatted
      in trending_loop trending optimized)"

fun sanitize_patterns :: "regexp list \<Rightarrow> jsstring \<Rightarrow> regexp list \<times> jsstring" where
  "sanitize_patterns [] sanitized = ([], sanitized)"
| "sanitize_patterns (p # ps) sanitized =
     (let (p', sanitized') = replace_regexp p sanitized (js ''***'');
          (ps', sanitized'') = sanitize_patterns ps sanitized'
      in (p' # ps', sanitized''))"

fun sanitize_indicators :: "string list \<Rightarrow> jsstring \<Rightarrow> jsstring" where
  \<comment> \<open>\<open>new RegExp(indicator, 'gi')\<close>: no indicator of the table contains a character
      that is special in a regular expression, so each one is a literal.\<close>
  "sanitize_indicators [] sanitized = sanitized"
| "sanitize_indicators (indicator # inds) sanitized =
     sanitize_indicators inds
       (snd (replace_regexp (regexp (Lit (js indicator)) True True) sanitized []))"

definition sanitizeCaption :: "regexp list \<Rightarrow> jsstring \<Rightarrow> regexp list \<times> jsstring" where
  \<comment> \<open>The first argument and the first result are the module-level table
      \<open>INAPPROPRIATE_PATTERNS\<close>, whose objects the replacements use.\<close>
  "sanitizeCaption tbl c =
     (let (tbl', s1) = sanitize_patterns tbl c;
          s2 = sanitize_indicators SPAM_INDICATORS s1;
          s3 = snd (replace_regexp (regexp (Rep 3 (OneOf (js ''!''))) False True) s2 (js ''!''));
          s4 = snd (replace_regexp (regexp (Rep 3 (OneOf (js ''?''))) False True) s3 (js ''?''));
          s5 = snd (replace_regexp (regexp (Rep 4 (OneOf (js ''.''))) False True) s4 (js ''...''))
      in (tbl', trim s5))"

section \<open>The Content Validator\<close>

record options =
  checkHateSpeech :: "bool option"
  checkSpam :: "bool option"
  checkCompliance :: "bool option"
  optimizeHashtagsOpt :: "bool option"
  predictEngagement :: "bool option"

text \<open>
  The body is cast to \<open>ValidationRequest\<close> without a check, so it can hold values
  outside the declared type. For \<open>hashtags\<close>, declared \<open>string[]\<close> and optional, the
  model has the absent field, an array of strings, and \<open>null\<close>, which the default
  \<open>hashtags = []\<close> of the destructuring does not replace.
\<close>

datatype hashtags_json = Undefined | Null | Array "jsstring list"

record ValidationRequest =
  caption :: jsstring
  hashtags :: hashtags_json
  options :: "options option"

record metrics =
  engagementScore :: int
  readabilityScore :: int
  hashtagRelevance :: int

record suggestions =
  caption_sugg :: "jsstring option"
  hashtags_sugg :: "jsstring list option"

record ValidationResponse =
  safe :: bool
  score :: int
  issues :: "string list"
  suggestions :: suggestions
  metrics :: metrics
  processingTime :: int

text \<open>The local variables \<open>issues\<close>, \<open>safe\<close> and \<open>score\<close> of the handler.\<close>

record checks =
  issues_v :: "string list"
  safe_v :: bool
  score_v :: int

definition enabled :: "bool option \<Rightarrow> bool" where
  \<comment> \<open>\<open>options.x !== false\<close>\<close>
  "enabled x \<longleftrightarrow> x \<noteq> Some False"

fun hate_loop :: "regexp list \<Rightarrow> jsstring \<Rightarrow> checks \<Rightarrow> regexp list \<times> checks" where
  "hate_loop [] c v = ([], v)"
| "hate_loop (p # ps) c v =
     (let (p', hit) = test p c in
      if hit
      then (p' # ps,
            v\<lparr>issues_v := issues_v v @ [''Potentially inappropriate content detected''],
              safe_v := False, score_v := score_v v - 30\<rparr>)
      else (let (ps', v') = hate_loop ps c v in (p' # ps', v')))"

fun spam_loop :: "platform \<Rightarrow> string list \<Rightarrow> jsstring \<Rightarrow> checks \<Rightarrow> checks" where
  "spam_loop pf [] lowerCaption v = v"
| "spam_loop pf (indicator # inds) lowerCaption v =
     (if includes_str lowerCaption (toLowerCase pf (js indicator))
      then v\<lparr>issues_v := issues_v v @ [''Spam-like content detected''],
             safe_v := False, score_v := score_v v - 20\<rparr>
      else spam_loop pf inds lowerCaption v)"

fun misleading_loop :: "regexp list \<Rightarrow> jsstring \<Rightarrow> checks \<Rightarrow> checks" where
  "misleading_loop [] c v = v"
| "misleading_loop (p # ps) c v =
     (if snd (test p c)
      then v\<lparr>issues_v := issues_v v @ [''Potentially misleading claims detected''],
             safe_v := False, score_v := score_v v - 25\<rparr>
      else misleading_loop ps c v)"

definition hate_check :: "regexp list \<Rightarrow> options \<Rightarrow> jsstring \<Rightarrow> checks \<Rightarrow> regexp list \<times> checks" where
  "hate_check tbl opts c v =
     (if enabled (checkHateSpeech opts) then hate_loop tbl c v else (tbl, v))"

definition hashtagInCaption :: "jsstring \<Rightarrow> nat" where
  "hashtagInCaption c =
     match_count (regexp (Seq (Lit (js ''#'')) (Rep 1 WordChar)) False True) c"

definition spam_check :: "platform \<Rightarrow> options \<Rightarrow> jsstring \<Rightarrow> checks \<Rightarrow> checks" where
  "spam_check pf opts c v =
     (if enabled (checkSpam opts) then
        let lowerCaption = toLowerCase pf c;
            v1 = spam_loop pf SPAM_INDICATORS lowerCaption v;
            v2 = (if 15 < emoji_count spam_emoji c
                  then v1\<lparr>issues_v := issues_v v1 @ [''Excessive emoji usage detected''],
                          score_v := score_v v1 - 10\<rparr>
                  else v1);
            v3 = (if 10 < hashtagInCaption c
                  then v2\<lparr>issues_v := issues_v v2 @ [''Too many hashtags in caption text''],
                          score_v := score_v v2 - 10\<rparr>
                  else v2)
        in v3
      else v)"

definition compliance_check :: "options \<Rightarrow> jsstring \<Rightarrow> checks \<Rightarrow> checks" where
  "compliance_check opts c v =
     (if enabled (checkCompliance opts) then misleading_loop misleadingPatterns c v else v)"

definition validate ::
  "platform \<Rightarrow> regexp list \<Rightarrow> jsstring \<Rightarrow> jsstring list \<Rightarrow> options \<Rightarrow> int
     \<Rightarrow> regexp list \<times> ValidationResponse" where
  \<comment> \<open>The body of the handler from the declaration of \<open>issues\<close> to the construction of
      \<open>response\<close>. The table of inappropriate patterns is passed in and returned; the
      last argument is \<open>Date.now() - startTime\<close>.\<close>
  "validate pf tbl c hs opts elapsed =
     (let v0 = \<lparr>issues_v = [], safe_v = True, score_v = 100\<rparr>;
          (tbl1, v1) = hate_check tbl opts c v0;
          v2 = spam_check pf opts c v1;
          v3 = compliance_check opts c v2;
          m = \<lparr>engagementScore = calculateEngagementScore c hs,
               readabilityScore = calculateReadabilityScore c,
               hashtagRelevance = calculateHashtagRelevance pf c hs\<rparr>;
          sh = (if enabled (optimizeHashtagsOpt opts) \<and> 0 < length hs
                then Some (optimizeHashtags pf hs c) else None);
          (tbl2, sc) = (if \<not> safe_v v3 \<and> 0 < length c
                        then (let (t, x) = sanitizeCaption tbl1 c in (t, Some x))
                        else (tbl1, None))
      in (tbl2,
          \<lparr>safe = safe_v v3,
           score = max 0 (min 100 (score_v v3)),
           issues = issues_v v3,
           suggestions = \<lparr>caption_sugg = sc, hashtags_sugg = sh\<rparr>,
           metrics = m,
           processingTime = elapsed\<rparr>))"

section \<open>The Request Handler\<close>

record request =
  authorization :: "jsstring option"
  x_api_key :: "jsstring option"
  x_forwarded_for :: "jsstring option"
  cf_connecting_ip :: "jsstring option"
  body :: "ValidationRequest option"

text \<open>
  \<open>body = None\<close> is a request whose \<open>request.json()\<close> throws. The three readings of
  the clock are those of \<open>Date.now()\<close> at the start of the handler, inside
  \<open>checkRateLimit\<close>, and when the response is built.
\<close>

record clock =
  start_time :: int
  rate_time :: int
  end_time :: int

datatype header_value = Text string | Number int | Millis int

datatype payload =
    ErrorJson string string "string option"
  | RateLimitJson string string "int option" int
  | ValidationJson ValidationResponse

record http_response =
  status :: nat
  payload :: payload
  headers :: "(string \<times> header_value) list"

record usage_call =
  apiKeyId :: jsstring
  endpoint :: string
  statusCode :: nat
  responseTime :: int
  ipAddress :: "jsstring option"

text \<open>
  What one run of the handler produces: the response, the call of \<open>trackUsage\<close> it
  made (if any), and the table of inappropriate patterns it leaves behind.
\<close>

record outcome =
  response :: http_response
  tracked :: "usage_call option"
  patterns :: "regexp list"

definition or_else :: "jsstring option \<Rightarrow> jsstring option \<Rightarrow> jsstring option" where
  \<comment> \<open>\<open>a || b\<close> on header values: \<open>null\<close> and the empty string are falsy.\<close>
  "or_else a b = (case a of Some x \<Rightarrow> (if x \<noteq> [] then Some x else b) | None \<Rightarrow> b)"

definition json_error :: "nat \<Rightarrow> string \<Rightarrow> string \<Rightarrow> string option \<Rightarrow> http_response" where
  "json_error st e c m =
     \<lparr>status = st, payload = ErrorJson e c m,
      headers = [(''Content-Type'', Text ''application/json'')]\<rparr>"

definition or_default :: "int option \<Rightarrow> int \<Rightarrow> int" where
  \<comment> \<open>\<open>x || d\<close> on numbers: \<open>undefined\<close> and 0 are falsy.\<close>
  "or_default x d = (case x of Some n \<Rightarrow> (if n \<noteq> 0 then n else d) | None \<Rightarrow> d)"

definition empty_options :: options where
  "empty_options =
     \<lparr>checkHateSpeech = None, checkSpam = None, checkCompliance = None,
      optimizeHashtagsOpt = None, predictEngagement = None\<rparr>"

definition accepted ::
  "clock \<Rightarrow> request \<Rightarrow> api_key option \<Rightarrow> rate_result \<Rightarrow> regexp list \<times> ValidationResponse
     \<Rightarrow> outcome" where
  \<comment> \<open>The end of the \<open>try\<close> block, from the call of \<open>trackUsage\<close> on.\<close>
  "accepted clk req kd rateLimit v =
     (let (tbl', r) = v in
      \<lparr>response =
         \<lparr>status = 200, payload = ValidationJson r,
          headers =
            [(''Content-Type'', Text ''application/json''),
             (''X-Processing-Time'', Millis (processingTime r)),
             (''X-RateLimit-Limit'', Number (or_default (limit rateLimit) 10)),
             (''X-RateLimit-Remaining'', Number (or_default (remaining rateLimit) 0))]\<rparr>,
       tracked =
         (case kd of
            None \<Rightarrow> None
          | Some k \<Rightarrow>
              Some \<lparr>apiKeyId = key_id k, endpoint = ''/api/v1/validate'',
                    statusCode = 200, responseTime = processingTime r,
                    ipAddress = or_else (x_forwarded_for req) (cf_connecting_ip req)\<rparr>),
       patterns = tbl'\<rparr>)"

definition handle_body ::
  "platform \<Rightarrow> clock \<Rightarrow> regexp list \<Rightarrow> request \<Rightarrow> api_key option \<Rightarrow> rate_result \<Rightarrow> outcome" where
  \<comment> \<open>The \<open>try\<close> block of the handler with its \<open>catch\<close>. With \<open>hashtags: null\<close> the
      three checks run, then \<open>hashtags.length\<close> in \<open>calculateEngagementScore\<close> throws:
      the answer is 500 and the pattern table stays as the hate-speech check left it.\<close>
  "handle_body pf clk tbl req kd rateLimit =
     (case body req of
        None \<Rightarrow>
          \<lparr>response = json_error 500 ''Internal server error'' ''INTERNAL_ERROR'' None,
           tracked = None, patterns = tbl\<rparr>
      | Some b \<Rightarrow>
          let c = caption b;
              opts = (case options b of Some x \<Rightarrow> x | None \<Rightarrow> empty_options)
          in
          if c = [] then
            \<lparr>response = json_error 400 ''Caption is required'' ''MISSING_CAPTION'' None,
             tracked = None, patterns = tbl\<rparr>
          else if 2200 < length c then
            \<lparr>response = json_error 400 ''Caption exceeds Instagram limit of 2200 characters''
                          ''CAPTION_TOO_LONG'' None,
             tracked = None, patterns = tbl\<rparr>
          else
            (case hashtags b of
               Null \<Rightarrow>
                 \<lparr>response = json_error 500 ''Internal server error'' ''INTERNAL_ERROR'' None,
                  tracked = None,
                  patterns = fst (hate_check tbl opts c
                                    \<lparr>issues_v = [], safe_v = True, score_v = 100\<rparr>)\<rparr>
             | Undefined \<Rightarrow>
                 accepted clk req kd rateLimit
                   (validate pf tbl c [] opts (end_time clk - start_time clk))
             | Array hs \<Rightarrow>
                 accepted clk req kd rateLimit
                   (validate pf tbl c hs opts (end_time clk - start_time clk))))"

definition missing_key :: "regexp list \<Rightarrow> outcome" where
  "missing_key tbl =
     \<lparr>response = json_error 401 ''API key required'' ''MISSING_API_KEY''
                   (Some ''Please provide an API key in the Authorization header''),
      tracked = None, patterns = tbl\<rparr>"

definition POST :: "platform \<Rightarrow> store \<Rightarrow> clock \<Rightarrow> regexp list \<Rightarrow> request \<Rightarrow> outcome" where
  "POST pf st clk tbl req =
     (case or_else (authorization req) (x_api_key req) of
        None \<Rightarrow> missing_key tbl
      | Some apiKey \<Rightarrow>
          if apiKey = [] then missing_key tbl
          else
            let auth = validateApiKey st apiKey in
            if \<not> valid auth then
              \<lparr>response =
                 json_error 401 (case error auth of Some e \<Rightarrow> e | None \<Rightarrow> ''Invalid API key'')
                   ''INVALID_API_KEY'' None,
               tracked = None, patterns = tbl\<rparr>
            else
              let rateLimit = checkRateLimit st (rate_time clk) apiKey in
              if \<not> allowed rateLimit then
                \<lparr>response =
                   \<lparr>status = 429,
                    payload = RateLimitJson ''Rate limit exceeded'' ''RATE_LIMIT_EXCEEDED''
                                (limit rateLimit) 0,
                    headers =
                      [(''Content-Type'', Text ''application/json''),
                       (''X-RateLimit-Limit'', Number (or_default (limit rateLimit) 10)),
                       (''X-RateLimit-Remaining'', Text ''0''),
                       (''Retry-After'', Text ''60'')]\<rparr>,
                 tracked = None, patterns = tbl\<rparr>
              else handle_body pf clk tbl req (keyData auth) rateLimit)"

section \<open>Properties: vocabulary\<close>

text \<open>
  The notions in which the properties below are stated: a pattern matches a caption
  when a search from the start of the caption finds a match; the per-minute
  threshold of a tier; the number of log entries of a key in the trailing minute;
  which penalty branches a caption triggers and the sum of their penalties.
\<close>

definition matches :: "regexp \<Rightarrow> jsstring \<Rightarrow> bool" where
  "matches p s \<longleftrightarrow> exec_from p s 0 \<noteq> None"

definition first_match :: "regexp list \<Rightarrow> jsstring \<Rightarrow> nat" where
  \<comment> \<open>The index in the table of the first pattern that matches the caption.\<close>
  "first_match tbl c = length (takeWhile (\<lambda>p. \<not> matches p c) tbl)"

definition reset :: "regexp \<Rightarrow> regexp" where
  "reset p = p\<lparr>lastIndex := 0\<rparr>"

definition threshold :: "tier option \<Rightarrow> int" where
  "threshold t =
     (case t of Some Free \<Rightarrow> 10 | Some Pro \<Rightarrow> 60 | Some Enterprise \<Rightarrow> 1000 | None \<Rightarrow> 10)"

definition recent_count :: "store \<Rightarrow> int \<Rightarrow> api_key \<Rightarrow> int" where
  "recent_count st now kd =
     int (length [l \<leftarrow> usage_logs st. api_key_id l = key_id kd \<and> now - 60000 \<le> created_at l])"

definition hate_triggered :: "regexp list \<Rightarrow> options \<Rightarrow> jsstring \<Rightarrow> bool" where
  "hate_triggered tbl opts c \<longleftrightarrow>
     enabled (checkHateSpeech opts) \<and> list_ex (\<lambda>p. snd (test p c)) tbl"

definition spam_triggered :: "platform \<Rightarrow> options \<Rightarrow> jsstring \<Rightarrow> bool" where
  "spam_triggered pf opts c \<longleftrightarrow>
     enabled (checkSpam opts)
     \<and> list_ex (\<lambda>i. includes_str (toLowerCase pf c) (toLowerCase pf (js i))) SPAM_INDICATORS"

definition emoji_triggered :: "options \<Rightarrow> jsstring \<Rightarrow> bool" where
  "emoji_triggered opts c \<longleftrightarrow> enabled (checkSpam opts) \<and> 15 < emoji_count spam_emoji c"

definition hashtags_triggered :: "options \<Rightarrow> jsstring \<Rightarrow> bool" where
  "hashtags_triggered opts c \<longleftrightarrow> enabled (checkSpam opts) \<and> 10 < hashtagInCaption c"

definition misleading_triggered :: "options \<Rightarrow> jsstring \<Rightarrow> bool" where
  "misleading_triggered opts c \<longleftrightarrow>
     enabled (checkCompliance opts) \<and> list_ex (\<lambda>p. snd (test p c)) misleadingPatterns"

definition penalty :: "bool \<Rightarrow> int \<Rightarrow> int" where
  "penalty triggered n = (if triggered then n else 0)"

definition penalties :: "platform \<Rightarrow> regexp list \<Rightarrow> options \<Rightarrow> jsstring \<Rightarrow> int" where
  "penalties pf tbl opts c =
     penalty (hate_triggered tbl opts c) 30 + penalty (spam_triggered pf opts c) 20
     + penalty (emoji_triggered opts c) 10 + penalty (hashtags_triggered opts c) 10
     + penalty (misleading_triggered opts c) 25"

definition validation :: "http_response \<Rightarrow> ValidationResponse option" where
  \<comment> \<open>The validation result that a response carries, if it carries one.\<close>
  "validation r = (case payload r of ValidationJson v \<Rightarrow> Some v | _ \<Rightarrow> None)"

definition erase_predictEngagement :: "request \<Rightarrow> request" where
  \<comment> \<open>The request with \<open>options.predictEngagement\<close> removed: two requests with the same
      image differ at most in the value or presence of that option.\<close>
  "erase_predictEngagement req =
     req\<lparr>body := map_option
            (\<lambda>b. b\<lparr>options := map_option (\<lambda>x. x\<lparr>predictEngagement := None\<rparr>) (options b)\<rparr>)
            (body req)\<rparr>"

section \<open>Example data\<close>

text \<open>
  A platform for ASCII text (on which \<open>toLowerCase\<close> maps \<open>A\<close> to \<open>Z\<close> only), a store
  with one active key of a free-tier user, and variants of it: the user's quota used
  up; ten log entries in the last minute; the store returning an error to the key
  query of the rate check. Then a request whose body has \<open>hashtags: null\<close> and the
  caption \<open>hate\<close>, and the pattern table that the handler leaves behind after it.
\<close>

definition ascii_platform :: platform where
  "ascii_platform =
     \<lparr>toLowerCase = map (\<lambda>c. if 65 \<le> c \<and> c \<le> 90 then c + 32 else c),
      round_percent = ieee_round_percent\<rparr>"

definition demo_profile :: profile where
  "demo_profile = \<lparr>api_calls_count = 3, api_calls_limit = 100, subscription_tier = Some Free\<rparr>"

definition demo_key :: api_key where
  "demo_key =
     \<lparr>key_id = js ''k1'', user_id = js ''u1'', key = js ''sk_live_1'', is_active = True,
      profiles = demo_profile\<rparr>"

definition demo_store :: store where
  "demo_store =
     \<lparr>configured = True, api_keys = [demo_key],
      usage_logs = [\<lparr>api_key_id = js ''k1'', created_at = 99000\<rparr>],
      validate_fault = NoFault, rate_key_fault = NoFault, rate_usage_fault = NoFault\<rparr>"

definition exhausted_store :: store where
  "exhausted_store =
     demo_store\<lparr>api_keys := [demo_key\<lparr>profiles := demo_profile\<lparr>api_calls_count := 100\<rparr>\<rparr>]\<rparr>"

definition busy_store :: store where
  "busy_store =
     demo_store\<lparr>usage_logs := replicate 10 \<lparr>api_key_id = js ''k1'', created_at = 99000\<rparr>\<rparr>"

definition failing_store :: store where
  "failing_store = demo_store\<lparr>rate_key_fault := ReturnsError\<rparr>"

definition demo_clock :: clock where
  "demo_clock = \<lparr>start_time = 100000, rate_time = 100002, end_time = 100008\<rparr>"

definition demo_request :: "jsstring option \<Rightarrow> jsstring option \<Rightarrow> jsstring \<Rightarrow> request" where
  "demo_request auth xkey c =
     \<lparr>authorization = auth, x_api_key = xkey, x_forwarded_for = None, cf_connecting_ip = None,
      body = Some \<lparr>caption = c, hashtags = Undefined, options = None\<rparr>\<rparr>"

definition null_hashtags_request :: request where
  "null_hashtags_request =
     \<lparr>authorization = None, x_api_key = Some (js ''sk_live_1''), x_forwarded_for = None,
      cf_connecting_ip = None,
      body = Some \<lparr>caption = js ''hate'', hashtags = Null, options = None\<rparr>\<rparr>"

definition stale_patterns :: "regexp list" where
  "stale_patterns =
     patterns (POST ascii_platform demo_store demo_clock INAPPROPRIATE_PATTERNS
                 null_hashtags_request)"

definition thirty_tags :: "jsstring list" where
  "thirty_tags = map (\<lambda>n. [35, 116, 97 + n]) [0 ..< 30]"

section \<open>The Access Gate: properties\<close>

lemma js_simps:
  "js [] = []" "js (x # xs) = of_char x # js xs"
  by (simp_all add: js_def)

lemma js_length: "length (js s) = length s"
  by (simp add: js_def)

lemma js_Nil_iff: "js s = [] \<longleftrightarrow> s = []"
  by (simp add: js_def)

text \<open>The example store at work: both header forms pass the key check, only one the rate check.\<close>

lemma validate_demo:
  "validateApiKey demo_store (js ''sk_live_1'') =
     \<lparr>valid = True, keyData = Some demo_key, error = None\<rparr>"
  by (simp add: validateApiKey_def demo_store_def demo_key_def demo_profile_def js_simps
      startsWith_def trim_def is_space_def respond_def single_def)

lemma validate_demo_bearer:
  "validateApiKey demo_store (js ''Bearer sk_live_1'') =
     \<lparr>valid = True, keyData = Some demo_key, error = None\<rparr>"
  by (simp add: validateApiKey_def demo_store_def demo_key_def demo_profile_def js_simps
      startsWith_def trim_def is_space_def respond_def single_def)

lemma rate_demo:
  "checkRateLimit demo_store 100002 (js ''sk_live_1'') =
     \<lparr>allowed = True, limit = Some 10, remaining = Some 9\<rparr>"
  by (simp add: checkRateLimit_def demo_store_def demo_key_def demo_profile_def js_simps
      respond_def single_def)

lemma rate_demo_bearer:
  "checkRateLimit demo_store 100002 (js ''Bearer sk_live_1'') =
     \<lparr>allowed = False, limit = None, remaining = None\<rparr>"
  by (simp add: checkRateLimit_def demo_store_def demo_key_def demo_profile_def js_simps
      respond_def single_def)

lemma demo_request_key:
  "or_else (authorization (demo_request (Some (js ''Bearer sk_live_1'')) None c))
     (x_api_key (demo_request (Some (js ''Bearer sk_live_1'')) None c)) =
     Some (js ''Bearer sk_live_1'')"
  "or_else (authorization (demo_request None (Some (js ''sk_live_1'')) c))
     (x_api_key (demo_request None (Some (js ''sk_live_1'')) c)) = Some (js ''sk_live_1'')"
  by (simp_all add: demo_request_def or_else_def js_Nil_iff)

lemma POST_accepted_status:
  assumes "or_else (authorization req) (x_api_key req) = Some apiKey" and "apiKey \<noteq> []"
    and "valid (validateApiKey st apiKey)"
    and "allowed (checkRateLimit st (rate_time clk) apiKey)"
    and "body req = Some b"
    and "caption b \<noteq> []" and "length (caption b) \<le> 2200" and "hashtags b \<noteq> Null"
  shows "status (response (POST pf st clk tbl req)) = 200"
  using assms
  by (simp add: POST_def handle_body_def accepted_def Let_def split_beta
      split: hashtags_json.splits)

lemma POST_rate_denied_status:
  assumes "or_else (authorization req) (x_api_key req) = Some apiKey" and "apiKey \<noteq> []"
    and "valid (validateApiKey st apiKey)"
    and "\<not> allowed (checkRateLimit st (rate_time clk) apiKey)"
  shows "status (response (POST pf st clk tbl req)) = 429"
  using assms by (simp add: POST_def Let_def)

text \<open>
  The rate check under a header value that starts with \<open>Bearer\<close>: issued keys start
  with \<open>sk_\<close>, so no key record is stored under the header value and the check
  denies, unless its query throws.
\<close>

lemma bearer_header_rate_denied:
  assumes "configured st" and "rate_key_fault st \<noteq> Throws"
    and "\<forall>k \<in> set (api_keys st). startsWith (key k) (js ''sk_'')"
    and "startsWith hdr (js ''Bearer '')"
  shows "\<not> allowed (checkRateLimit st now hdr)"
proof -
  have "key k \<noteq> hdr" if "k \<in> set (api_keys st)" for k
  proof
    assume "key k = hdr"
    with assms(3) that have h: "take (length (js ''sk_'')) hdr = js ''sk_''"
      by (auto simp: startsWith_def)
    from assms(4) obtain rest where "hdr = js ''Bearer '' @ rest"
      unfolding startsWith_def by (metis append_take_drop_id)
    with h show False
      by (simp add: js_simps)
  qed
  then have "[k \<leftarrow> api_keys st. key k = hdr] = []"
    by (simp add: filter_empty_conv)
  with assms(1,2) show ?thesis
    by (cases "rate_key_fault st") (simp_all add: checkRateLimit_def respond_def single_def)
qed

text \<open>
  C1. A valid, active key with quota left and an unexhausted rate window is to be
  accepted with status 200 in both header forms. The handler does not do this:
  \<open>validateApiKey\<close> removes the \<open>Bearer\<close> prefix before it looks the key up, but
  \<open>checkRateLimit\<close> is called with the header value as it arrived, finds no key
  record under \<open>Bearer sk_live_1\<close> and denies. On the same store the same key is
  answered with 429 when it arrives in the \<open>Authorization\<close> header and with 200
  when it arrives in \<open>X-API-Key\<close>.
\<close>

theorem bearer_key_rate_limited:
  "status (response (POST ascii_platform demo_store demo_clock INAPPROPRIATE_PATTERNS
      (demo_request (Some (js ''Bearer sk_live_1'')) None (js ''hello'')))) = 429
   \<and> status (response (POST ascii_platform demo_store demo_clock INAPPROPRIATE_PATTERNS
      (demo_request None (Some (js ''sk_live_1'')) (js ''hello'')))) = 200"
proof
  show "status (response (POST ascii_platform demo_store demo_clock INAPPROPRIATE_PATTERNS
      (demo_request (Some (js ''Bearer sk_live_1'')) None (js ''hello'')))) = 429"
    by (rule POST_rate_denied_status [OF demo_request_key(1)])
       (simp_all add: validate_demo_bearer rate_demo_bearer demo_clock_def js_Nil_iff)
  show "status (response (POST ascii_platform demo_store demo_clock INAPPROPRIATE_PATTERNS
      (demo_request None (Some (js ''sk_live_1'')) (js ''hello'')))) = 200"
    by (rule POST_accepted_status [OF demo_request_key(2),
          where b = "\<lparr>caption = js ''hello'', hashtags = Undefined, options = None\<rparr>"])
       (simp_all add: validate_demo rate_demo demo_clock_def demo_request_def js_Nil_iff js_length)
qed

text \<open>
  C2, as the code has it. When the key of a request is well-formed, found and active,
  and its owner's call count has reached the call limit, the request is denied
  whatever the usage log, the rate window and the clock are: the response has status
  401 and code \<open>INVALID_API_KEY\<close>, carries the message that the limit is exceeded, and
  has no other header than the content type.
\<close>

theorem quota_exceeded_denied:
  assumes "or_else (authorization req) (x_api_key req) = Some apiKey" and "apiKey \<noteq> []"
    and "configured st" and "validate_fault st = NoFault"
    and "startsWith (trim (replace_first apiKey (js ''Bearer '') [])) (js ''sk_'')"
    and "[k \<leftarrow> api_keys st.
            key k = trim (replace_first apiKey (js ''Bearer '') []) \<and> is_active k] = [kd]"
    and "api_calls_limit (profiles kd) \<le> api_calls_count (profiles kd)"
  shows "POST pf st clk tbl req =
     \<lparr>response = json_error 401 ''API limit exceeded. Please upgrade your plan.''
                   ''INVALID_API_KEY'' None,
      tracked = None, patterns = tbl\<rparr>"
proof -
  from assms(2-7) have
    "validateApiKey st apiKey = invalid ''API limit exceeded. Please upgrade your plan.''"
    by (simp add: validateApiKey_def respond_def single_def Let_def)
  with assms(1,2) show ?thesis
    by (simp add: POST_def invalid_def)
qed

theorem quota_exceeded_denied_witness:
  "POST ascii_platform exhausted_store demo_clock INAPPROPRIATE_PATTERNS
      (demo_request None (Some (js ''sk_live_1'')) (js ''hello'')) =
     \<lparr>response = json_error 401 ''API limit exceeded. Please upgrade your plan.''
                   ''INVALID_API_KEY'' None,
      tracked = None, patterns = INAPPROPRIATE_PATTERNS\<rparr>"
proof -
  let ?req = "demo_request None (Some (js ''sk_live_1'')) (js ''hello'')"
  let ?k = "demo_key\<lparr>profiles := demo_profile\<lparr>api_calls_count := 100\<rparr>\<rparr>"
  have 1: "or_else (authorization ?req) (x_api_key ?req) = Some (js ''sk_live_1'')"
    by (rule demo_request_key(2))
  have n: "js ''sk_live_1'' \<noteq> []"
    by (simp add: js_Nil_iff)
  have 2: "configured exhausted_store" and 3: "validate_fault exhausted_store = NoFault"
    by (simp_all add: exhausted_store_def demo_store_def)
  have t: "trim (replace_first (js ''sk_live_1'') (js ''Bearer '') []) = js ''sk_live_1''"
    by (simp add: js_simps startsWith_def trim_def is_space_def)
  have 4: "startsWith (trim (replace_first (js ''sk_live_1'') (js ''Bearer '') [])) (js ''sk_'')"
    unfolding t by (simp add: js_simps startsWith_def)
  have 5: "[k \<leftarrow> api_keys exhausted_store.
             key k = trim (replace_first (js ''sk_live_1'') (js ''Bearer '') []) \<and> is_active k] = [?k]"
    unfolding t by (simp add: exhausted_store_def demo_store_def demo_key_def)
  have 6: "api_calls_limit (profiles ?k) \<le> api_calls_count (profiles ?k)"
    by (simp add: demo_profile_def)
  show ?thesis
    by (rule quota_exceeded_denied [OF 1 n 2 3 4 5 6])
qed

text \<open>
  C2, as stated, fails: for a user whose call count equals the limit the response has
  status 401, not 429, and no \<open>Retry-After\<close> header.
\<close>

lemma validate_exhausted:
  "validateApiKey exhausted_store (js ''sk_live_1'') =
     invalid ''API limit exceeded. Please upgrade your plan.''"
  by (simp add: validateApiKey_def exhausted_store_def demo_store_def demo_key_def
      demo_profile_def js_simps startsWith_def trim_def is_space_def respond_def single_def)

theorem quota_exceeded_not_429:
  "status (response (POST ascii_platform exhausted_store demo_clock INAPPROPRIATE_PATTERNS
      (demo_request None (Some (js ''sk_live_1'')) (js ''hello'')))) = 401
   \<and> status (response (POST ascii_platform exhausted_store demo_clock INAPPROPRIATE_PATTERNS
      (demo_request None (Some (js ''sk_live_1'')) (js ''hello'')))) \<noteq> 429
   \<and> map_of (headers (response (POST ascii_platform exhausted_store demo_clock
      INAPPROPRIATE_PATTERNS (demo_request None (Some (js ''sk_live_1'')) (js ''hello'')))))
        ''Retry-After'' = None"
  by (simp add: POST_def validate_exhausted invalid_def demo_request_key js_Nil_iff json_error_def)

text \<open>
  C5. When the store answers both queries of the rate check and holds one record for
  the key, the threshold is 10 for the free tier, 60 for pro, 1000 for enterprise and
  10 for an absent tier; with \<open>count\<close> the number of log entries of the key in the
  trailing 60 seconds, the request is denied with \<open>remaining = 0\<close> if
  \<open>count \<ge> threshold\<close>, and allowed with \<open>remaining = threshold - count\<close> otherwise.
\<close>

theorem rate_check_thresholds:
  assumes "configured st" and "rate_key_fault st = NoFault" and "rate_usage_fault st = NoFault"
    and "[k \<leftarrow> api_keys st. key k = apiKey] = [kd]"
  shows "checkRateLimit st now apiKey =
     (if threshold (subscription_tier (profiles kd)) \<le> recent_count st now kd
      then \<lparr>allowed = False, limit = Some (threshold (subscription_tier (profiles kd))),
            remaining = Some 0\<rparr>
      else \<lparr>allowed = True, limit = Some (threshold (subscription_tier (profiles kd))),
            remaining = Some (threshold (subscription_tier (profiles kd))
                              - recent_count st now kd)\<rparr>)"
  using assms
  by (simp add: checkRateLimit_def respond_def single_def threshold_def recent_count_def Let_def
      split: option.splits tier.splits)

text \<open>Threshold 10 and ten entries in the trailing minute: the next request is denied.\<close>

theorem rate_check_thresholds_witness:
  "checkRateLimit busy_store 100002 (js ''sk_live_1'') =
     \<lparr>allowed = False, limit = Some 10, remaining = Some 0\<rparr>"
proof -
  have 1: "configured busy_store" and 2: "rate_key_fault busy_store = NoFault"
    and 3: "rate_usage_fault busy_store = NoFault"
    by (simp_all add: busy_store_def demo_store_def)
  have 4: "[k \<leftarrow> api_keys busy_store. key k = js ''sk_live_1''] = [demo_key]"
    by (simp add: busy_store_def demo_store_def demo_key_def)
  have 5: "threshold (subscription_tier (profiles demo_key)) = 10"
    by (simp add: demo_key_def demo_profile_def threshold_def)
  have 6: "recent_count busy_store 100002 demo_key = 10"
    by (simp add: recent_count_def busy_store_def demo_store_def demo_key_def)
  show ?thesis
    using rate_check_thresholds [OF 1 2 3 4, of 100002] by (simp add: 5 6)
qed

text \<open>
  The behaviour of the gate when the store fails. A failure of the key lookup of
  \<open>validateApiKey\<close> denies; an exception in the rate check allows, and so does a
  failure of its usage query.
\<close>

lemma key_lookup_fault_denies:
  assumes "validate_fault st \<noteq> NoFault"
  shows "\<not> valid (validateApiKey st apiKey)"
  using assms
  by (cases "validate_fault st") (simp_all add: validateApiKey_def respond_def invalid_def Let_def)

lemma rate_key_throw_allows:
  assumes "configured st" and "rate_key_fault st = Throws"
  shows "allowed (checkRateLimit st now apiKey)"
  using assms by (simp add: checkRateLimit_def respond_def)

lemma rate_usage_fault_allows:
  assumes "configured st" and "rate_key_fault st = NoFault" and "rate_usage_fault st \<noteq> NoFault"
    and "[k \<leftarrow> api_keys st. key k = apiKey] = [kd]"
  shows "allowed (checkRateLimit st now apiKey)"
  using assms
  by (cases "rate_usage_fault st") (simp_all add: checkRateLimit_def respond_def single_def Let_def)

text \<open>
  C6. The rate check is to allow whenever the store errors or throws during it. It
  does not when the store returns an error to the first query of \<open>checkRateLimit\<close>,
  the one that fetches the key and its tier: the function reads only the data of
  that reply, finds none, and denies. With a key that has passed \<open>validateApiKey\<close>
  the request is answered with 429.
\<close>

theorem rate_key_error_denies:
  "valid (validateApiKey failing_store (js ''sk_live_1''))
   \<and> \<not> allowed (checkRateLimit failing_store 100002 (js ''sk_live_1''))
   \<and> status (response (POST ascii_platform failing_store demo_clock INAPPROPRIATE_PATTERNS
        (demo_request None (Some (js ''sk_live_1'')) (js ''hello'')))) = 429"
proof -
  have v: "valid (validateApiKey failing_store (js ''sk_live_1''))"
    by (simp add: validateApiKey_def failing_store_def demo_store_def demo_key_def demo_profile_def
        js_simps startsWith_def trim_def is_space_def respond_def single_def)
  have r: "\<not> allowed (checkRateLimit failing_store 100002 (js ''sk_live_1''))"
    by (simp add: checkRateLimit_def failing_store_def demo_store_def respond_def)
  have "status (response (POST ascii_platform failing_store demo_clock INAPPROPRIATE_PATTERNS
        (demo_request None (Some (js ''sk_live_1'')) (js ''hello'')))) = 429"
    by (rule POST_rate_denied_status [OF demo_request_key(2)])
       (simp_all add: v r demo_clock_def js_Nil_iff)
  with v r show ?thesis
    by simp
qed

section \<open>The Request Handler: properties\<close>

text \<open>
  C8. A request that has passed the Access Gate and whose caption is longer than 2200
  code units is answered with status 400 and code \<open>CAPTION_TOO_LONG\<close>. The outcome
  is this one value whatever the hashtags, the options and the platform are: no
  check, metric or suggestion enters it, the pattern table is left as it was and no
  usage is tracked.
\<close>

theorem caption_too_long:
  assumes "or_else (authorization req) (x_api_key req) = Some apiKey" and "apiKey \<noteq> []"
    and "valid (validateApiKey st apiKey)"
    and "allowed (checkRateLimit st (rate_time clk) apiKey)"
    and "body req = Some b"
    and "2200 < length (caption b)"
  shows "POST pf st clk tbl req =
     \<lparr>response = json_error 400 ''Caption exceeds Instagram limit of 2200 characters''
                   ''CAPTION_TOO_LONG'' None,
      tracked = None, patterns = tbl\<rparr>"
proof -
  from assms(6) have "caption b \<noteq> []"
    by auto
  with assms show ?thesis
    by (simp add: POST_def handle_body_def Let_def)
qed

theorem caption_too_long_witness:
  "POST ascii_platform demo_store demo_clock INAPPROPRIATE_PATTERNS
      (demo_request None (Some (js ''sk_live_1'')) (replicate 2201 97)) =
     \<lparr>response = json_error 400 ''Caption exceeds Instagram limit of 2200 characters''
                   ''CAPTION_TOO_LONG'' None,
      tracked = None, patterns = INAPPROPRIATE_PATTERNS\<rparr>"
proof -
  let ?req = "demo_request None (Some (js ''sk_live_1'')) (replicate 2201 97)"
  let ?b = "\<lparr>caption = replicate 2201 97, hashtags = Undefined, options = None\<rparr>"
  have 1: "or_else (authorization ?req) (x_api_key ?req) = Some (js ''sk_live_1'')"
    by (rule demo_request_key(2))
  have n: "js ''sk_live_1'' \<noteq> []"
    by (simp add: js_Nil_iff)
  have 2: "valid (validateApiKey demo_store (js ''sk_live_1''))"
    by (simp add: validate_demo)
  have 3: "allowed (checkRateLimit demo_store (rate_time demo_clock) (js ''sk_live_1''))"
    by (simp add: demo_clock_def rate_demo)
  have 4: "body ?req = Some ?b"
    by (simp add: demo_request_def)
  have 5: "2200 < length (caption ?b)"
    by simp
  show ?thesis
    by (rule caption_too_long [OF 1 n 2 3 4 5])
qed

section \<open>The Content Validator: properties\<close>

text \<open>Each loop of the validator applies its penalty once if some entry of its table hits.\<close>

lemma hate_loop_snd:
  "snd (hate_loop tbl c v) =
     (if list_ex (\<lambda>p. snd (test p c)) tbl
      then v\<lparr>issues_v := issues_v v @ [''Potentially inappropriate content detected''],
             safe_v := False, score_v := score_v v - 30\<rparr>
      else v)"
  by (induction tbl) (auto simp: split_beta Let_def)

lemma spam_loop_eq:
  "spam_loop pf inds lc v =
     (if list_ex (\<lambda>i. includes_str lc (toLowerCase pf (js i))) inds
      then v\<lparr>issues_v := issues_v v @ [''Spam-like content detected''],
             safe_v := False, score_v := score_v v - 20\<rparr>
      else v)"
  by (induction inds) auto

lemma misleading_loop_eq:
  "misleading_loop ps c v =
     (if list_ex (\<lambda>p. snd (test p c)) ps
      then v\<lparr>issues_v := issues_v v @ [''Potentially misleading claims detected''],
             safe_v := False, score_v := score_v v - 25\<rparr>
      else v)"
  by (induction ps) auto

lemma hate_check_score:
  "score_v (snd (hate_check tbl opts c v)) = score_v v - penalty (hate_triggered tbl opts c) 30"
  by (simp add: hate_check_def hate_loop_snd hate_triggered_def penalty_def)

lemma spam_check_score:
  "score_v (spam_check pf opts c v) =
     score_v v - penalty (spam_triggered pf opts c) 20 - penalty (emoji_triggered opts c) 10
       - penalty (hashtags_triggered opts c) 10"
  by (simp add: spam_check_def spam_loop_eq spam_triggered_def emoji_triggered_def
      hashtags_triggered_def penalty_def Let_def)

lemma compliance_check_score:
  "score_v (compliance_check opts c v) = score_v v - penalty (misleading_triggered opts c) 25"
  by (simp add: compliance_check_def misleading_loop_eq misleading_triggered_def penalty_def)

lemma validate_score:
  "score (snd (validate pf tbl c hs opts e)) =
     max 0 (min 100 (score_v (compliance_check opts c (spam_check pf opts c
        (snd (hate_check tbl opts c \<lparr>issues_v = [], safe_v = True, score_v = 100\<rparr>))))))"
  by (simp add: validate_def Let_def split_beta)

lemma validate_safe:
  "safe (snd (validate pf tbl c hs opts e)) =
     safe_v (compliance_check opts c (spam_check pf opts c
        (snd (hate_check tbl opts c \<lparr>issues_v = [], safe_v = True, score_v = 100\<rparr>))))"
  by (simp add: validate_def Let_def split_beta)

lemma validate_issues:
  "issues (snd (validate pf tbl c hs opts e)) =
     issues_v (compliance_check opts c (spam_check pf opts c
        (snd (hate_check tbl opts c \<lparr>issues_v = [], safe_v = True, score_v = 100\<rparr>))))"
  by (simp add: validate_def Let_def split_beta)

lemma validate_score_penalties:
  "score (snd (validate pf tbl c hs opts e)) = max 0 (min 100 (100 - penalties pf tbl opts c))"
  by (simp add: validate_score compliance_check_score spam_check_score hate_check_score
      penalties_def)

text \<open>
  C3. For every caption, every state of the pattern table and every combination of
  options, the returned score is 100 minus the sum of the penalties of the branches
  that are triggered (30 for inappropriate content, 20 for a spam phrase, 10 for more
  than 15 emoji, 10 for more than 10 hashtags in the caption, 25 for a misleading
  claim), clamped to the interval from 0 to 100; it is never negative and never
  above 100.
\<close>

theorem score_formula:
  "score (snd (validate pf tbl c hs opts e)) = max 0 (min 100 (100 - penalties pf tbl opts c))
   \<and> 0 \<le> score (snd (validate pf tbl c hs opts e))
   \<and> score (snd (validate pf tbl c hs opts e)) \<le> 100"
  by (simp add: validate_score_penalties)

text \<open>
  The pattern table between requests. \<open>test\<close> on a pattern with the \<open>g\<close> flag
  starts at its \<open>lastIndex\<close>, so a hit of the hate-speech check leaves a pattern
  that would start its next search in the middle of the next caption. When the
  handler reaches its end it has undone this: a hit makes the caption unsafe, an
  unsafe caption is sanitized, and the replacements of \<open>sanitizeCaption\<close> reset
  \<open>lastIndex\<close> of every pattern of the table. A handler that starts with the table as
  the module defines it and does not throw on the way therefore returns with that
  table. A body with \<open>hashtags: null\<close> makes it throw between the hit and the reset.
\<close>

lemma test_fresh: "lastIndex p = 0 \<Longrightarrow> snd (test p c) = matches p c"
  by (simp add: test_def matches_def split: option.splits)

lemma test_reset: "reset (fst (test p c)) = reset p"
  by (auto simp: test_def reset_def split: option.splits prod.splits)

lemma test_global: "global (fst (test p c)) = global p"
  by (auto simp: test_def split: option.splits prod.splits)

lemma test_miss: "global p \<Longrightarrow> \<not> snd (test p c) \<Longrightarrow> fst (test p c) = reset p"
  by (auto simp: test_def reset_def split: option.splits prod.splits)

lemma hate_loop_reset: "map reset (fst (hate_loop tbl c v)) = map reset tbl"
  by (induction tbl) (simp_all add: split_beta Let_def test_reset)

lemma hate_loop_global: "list_all global tbl \<Longrightarrow> list_all global (fst (hate_loop tbl c v))"
  by (induction tbl) (simp_all add: split_beta Let_def test_global)

lemma hate_loop_miss:
  "list_all global tbl \<Longrightarrow> \<not> list_ex (\<lambda>p. snd (test p c)) tbl \<Longrightarrow>
     fst (hate_loop tbl c v) = map reset tbl"
  by (induction tbl) (simp_all add: split_beta Let_def test_miss)

lemma sanitize_patterns_reset:
  "list_all global tbl \<Longrightarrow> fst (sanitize_patterns tbl s) = map reset tbl"
  by (induction tbl arbitrary: s) (simp_all add: split_beta Let_def replace_regexp_def reset_def)

lemma sanitizeCaption_reset: "list_all global tbl \<Longrightarrow> fst (sanitizeCaption tbl c) = map reset tbl"
  by (simp add: sanitizeCaption_def split_beta Let_def sanitize_patterns_reset)

lemma spam_check_safe: "\<not> safe_v v \<Longrightarrow> \<not> safe_v (spam_check pf opts c v)"
  by (simp add: spam_check_def spam_loop_eq Let_def)

lemma compliance_check_safe: "\<not> safe_v v \<Longrightarrow> \<not> safe_v (compliance_check opts c v)"
  by (simp add: compliance_check_def misleading_loop_eq)

lemma hate_check_unsafe:
  "enabled (checkHateSpeech opts) \<Longrightarrow> list_ex (\<lambda>p. snd (test p c)) tbl \<Longrightarrow>
     \<not> safe_v (snd (hate_check tbl opts c v))"
  by (simp add: hate_check_def hate_loop_snd)

lemma validate_keeps_patterns:
  assumes g: "list_all global tbl" and f: "map reset tbl = tbl" and c: "c \<noteq> []"
  shows "fst (validate pf tbl c hs opts e) = tbl"
proof -
  let ?h = "hate_check tbl opts c \<lparr>issues_v = [], safe_v = True, score_v = 100\<rparr>"
  let ?v3 = "compliance_check opts c (spam_check pf opts c (snd ?h))"
  have fst_eq: "fst (validate pf tbl c hs opts e) =
      (if \<not> safe_v ?v3 then fst (sanitizeCaption (fst ?h) c) else fst ?h)"
    using c by (simp add: validate_def Let_def split_beta)
  have gh: "list_all global (fst ?h)" and rh: "map reset (fst ?h) = tbl"
    using g f by (simp_all add: hate_check_def hate_loop_global hate_loop_reset)
  show ?thesis
  proof (cases "safe_v ?v3")
    case False
    then show ?thesis
      by (simp add: fst_eq sanitizeCaption_reset [OF gh] rh)
  next
    case True
    then have "safe_v (snd ?h)"
      using compliance_check_safe spam_check_safe by blast
    then have "\<not> (enabled (checkHateSpeech opts) \<and> list_ex (\<lambda>p. snd (test p c)) tbl)"
      using hate_check_unsafe by blast
    then have "fst ?h = tbl"
      using g f by (auto simp: hate_check_def hate_loop_miss)
    with True show ?thesis
      by (simp add: fst_eq)
  qed
qed

lemma INAPPROPRIATE_PATTERNS_fresh: "list_all (\<lambda>p. lastIndex p = 0) INAPPROPRIATE_PATTERNS"
  by (simp add: INAPPROPRIATE_PATTERNS_def regexp_def)

lemma INAPPROPRIATE_PATTERNS_global: "list_all global INAPPROPRIATE_PATTERNS"
  by (simp add: INAPPROPRIATE_PATTERNS_def regexp_def)

lemma INAPPROPRIATE_PATTERNS_reset: "map reset INAPPROPRIATE_PATTERNS = INAPPROPRIATE_PATTERNS"
  by (simp add: INAPPROPRIATE_PATTERNS_def regexp_def reset_def)

lemma POST_keeps_patterns:
  assumes "\<And>b. body req = Some b \<Longrightarrow> hashtags b \<noteq> Null"
  shows "patterns (POST pf st clk INAPPROPRIATE_PATTERNS req) = INAPPROPRIATE_PATTERNS"
proof (cases "body req")
  case None
  then show ?thesis
    by (simp add: POST_def handle_body_def missing_key_def Let_def split: option.splits)
next
  case (Some b)
  with assms have "hashtags b \<noteq> Null"
    by simp
  with Some show ?thesis
    by (simp add: POST_def handle_body_def accepted_def missing_key_def Let_def split_beta
        validate_keeps_patterns [OF INAPPROPRIATE_PATTERNS_global INAPPROPRIATE_PATTERNS_reset]
        split: option.splits hashtags_json.splits)
qed

lemma list_ex_test_fresh:
  "list_all (\<lambda>p. lastIndex p = 0) tbl \<Longrightarrow>
     list_ex (\<lambda>p. snd (test p c)) tbl = list_ex (\<lambda>p. matches p c) tbl"
  by (induction tbl) (simp_all add: test_fresh)

lemma takeWhile_test_fresh:
  "list_all (\<lambda>p. lastIndex p = 0) tbl \<Longrightarrow>
     takeWhile (\<lambda>p. \<not> snd (test p c)) tbl = takeWhile (\<lambda>p. \<not> matches p c) tbl"
  by (induction tbl) (simp_all add: test_fresh)

lemma hate_loop_prefix:
  "snd (hate_loop tbl c v) =
     snd (hate_loop (take (Suc (length (takeWhile (\<lambda>p. \<not> snd (test p c)) tbl))) tbl) c v)"
  by (induction tbl) (auto simp: split_beta Let_def)

lemma spam_check_count:
  "count_list (issues_v (spam_check pf opts c v)) ''Potentially inappropriate content detected'' =
     count_list (issues_v v) ''Potentially inappropriate content detected''"
  by (simp add: spam_check_def spam_loop_eq Let_def)

lemma compliance_check_count:
  "count_list (issues_v (compliance_check opts c v)) ''Potentially inappropriate content detected'' =
     count_list (issues_v v) ''Potentially inappropriate content detected''"
  by (simp add: compliance_check_def misleading_loop_eq)

lemma hate_loop_stops:
  "fst (hate_loop tbl c v) =
     map (\<lambda>p. fst (test p c)) (take (Suc (length (takeWhile (\<lambda>p. \<not> snd (test p c)) tbl))) tbl)
     @ drop (Suc (length (takeWhile (\<lambda>p. \<not> snd (test p c)) tbl))) tbl"
  by (induction tbl) (auto simp: split_beta Let_def)

text \<open>
  What holds while the table is as the module defines it. With \<open>checkHateSpeech\<close>
  not set to false, every caption that matches at least one inappropriate-content
  pattern gets \<open>safe = false\<close> and a score of at most 70, the hate-speech message
  occurs exactly once among the issues, and the scan stops at the first matching
  pattern: in the table that the check returns, the patterns up to that one have
  been tested and the patterns after it are the objects that were passed in.
\<close>

lemma fresh_table_flags_hate_speech:
  assumes "list_ex (\<lambda>p. matches p c) INAPPROPRIATE_PATTERNS"
    and "enabled (checkHateSpeech opts)"
  shows "\<not> safe (snd (validate pf INAPPROPRIATE_PATTERNS c hs opts e))
    \<and> score (snd (validate pf INAPPROPRIATE_PATTERNS c hs opts e)) \<le> 70
    \<and> count_list (issues (snd (validate pf INAPPROPRIATE_PATTERNS c hs opts e)))
         ''Potentially inappropriate content detected'' = 1
    \<and> snd (hate_check INAPPROPRIATE_PATTERNS opts c v) =
        snd (hate_check (take (Suc (first_match INAPPROPRIATE_PATTERNS c)) INAPPROPRIATE_PATTERNS)
               opts c v)
    \<and> fst (hate_check INAPPROPRIATE_PATTERNS opts c v) =
        map (\<lambda>p. fst (test p c))
          (take (Suc (first_match INAPPROPRIATE_PATTERNS c)) INAPPROPRIATE_PATTERNS)
        @ drop (Suc (first_match INAPPROPRIATE_PATTERNS c)) INAPPROPRIATE_PATTERNS"
proof -
  let ?v0 = "\<lparr>issues_v = [], safe_v = True, score_v = 100\<rparr>"
  let ?h = "snd (hate_check INAPPROPRIATE_PATTERNS opts c ?v0)"
  from assms have hit: "list_ex (\<lambda>p. snd (test p c)) INAPPROPRIATE_PATTERNS"
    by (simp add: list_ex_test_fresh [OF INAPPROPRIATE_PATTERNS_fresh])
  with assms(2) have h: "?h = \<lparr>issues_v = [''Potentially inappropriate content detected''],
      safe_v = False, score_v = 70\<rparr>"
    by (simp add: hate_check_def hate_loop_snd)
  have "\<not> safe (snd (validate pf INAPPROPRIATE_PATTERNS c hs opts e))"
    unfolding validate_safe h
    by (intro compliance_check_safe spam_check_safe) simp
  moreover have "hate_triggered INAPPROPRIATE_PATTERNS opts c"
    using hit assms(2) by (simp add: hate_triggered_def)
  then have "30 \<le> penalties pf INAPPROPRIATE_PATTERNS opts c"
    by (simp add: penalties_def penalty_def)
  then have "score (snd (validate pf INAPPROPRIATE_PATTERNS c hs opts e)) \<le> 70"
    by (simp add: validate_score_penalties)
  moreover have "count_list (issues (snd (validate pf INAPPROPRIATE_PATTERNS c hs opts e)))
         ''Potentially inappropriate content detected'' = 1"
    unfolding validate_issues compliance_check_count spam_check_count h by simp
  moreover have "snd (hate_check INAPPROPRIATE_PATTERNS opts c v) =
        snd (hate_check (take (Suc (first_match INAPPROPRIATE_PATTERNS c)) INAPPROPRIATE_PATTERNS)
               opts c v)"
    using hate_loop_prefix [of INAPPROPRIATE_PATTERNS c v]
    by (simp add: hate_check_def first_match_def
        takeWhile_test_fresh [OF INAPPROPRIATE_PATTERNS_fresh])
  moreover have "fst (hate_check INAPPROPRIATE_PATTERNS opts c v) =
        map (\<lambda>p. fst (test p c))
          (take (Suc (first_match INAPPROPRIATE_PATTERNS c)) INAPPROPRIATE_PATTERNS)
        @ drop (Suc (first_match INAPPROPRIATE_PATTERNS c)) INAPPROPRIATE_PATTERNS"
    using hate_loop_stops [of INAPPROPRIATE_PATTERNS c v] assms(2)
    by (simp add: hate_check_def first_match_def
        takeWhile_test_fresh [OF INAPPROPRIATE_PATTERNS_fresh])
  ultimately show ?thesis
    by blast
qed

text \<open>The two requests of the example: the first throws, the second meets the stale table.\<close>

lemma POST_threw:
  assumes "or_else (authorization req) (x_api_key req) = Some apiKey" and "apiKey \<noteq> []"
    and "valid (validateApiKey st apiKey)"
    and "allowed (checkRateLimit st (rate_time clk) apiKey)"
    and "body req = Some b"
    and "caption b \<noteq> []" and "length (caption b) \<le> 2200" and "hashtags b = Null"
  shows "POST pf st clk tbl req =
     \<lparr>response = json_error 500 ''Internal server error'' ''INTERNAL_ERROR'' None,
      tracked = None,
      patterns = fst (hate_check tbl (case options b of Some x \<Rightarrow> x | None \<Rightarrow> empty_options)
                        (caption b) \<lparr>issues_v = [], safe_v = True, score_v = 100\<rparr>)\<rparr>"
  using assms by (simp add: POST_def handle_body_def Let_def)

lemma POST_validation:
  assumes "or_else (authorization req) (x_api_key req) = Some apiKey" and "apiKey \<noteq> []"
    and "valid (validateApiKey st apiKey)"
    and "allowed (checkRateLimit st (rate_time clk) apiKey)"
    and "body req = Some b"
    and "caption b \<noteq> []" and "length (caption b) \<le> 2200" and "hashtags b = Undefined"
  shows "validation (response (POST pf st clk tbl req)) =
     Some (snd (validate pf tbl (caption b) []
                  (case options b of Some x \<Rightarrow> x | None \<Rightarrow> empty_options)
                  (end_time clk - start_time clk)))"
  using assms
  by (simp add: POST_def handle_body_def accepted_def validation_def Let_def split_beta)

lemma validate_untriggered:
  assumes "\<not> hate_triggered tbl opts c" and "\<not> spam_triggered pf opts c"
    and "\<not> emoji_triggered opts c" and "\<not> hashtags_triggered opts c"
    and "\<not> misleading_triggered opts c"
  shows "safe (snd (validate pf tbl c hs opts e)) \<and> score (snd (validate pf tbl c hs opts e)) = 100
    \<and> issues (snd (validate pf tbl c hs opts e)) = []"
proof -
  let ?v0 = "\<lparr>issues_v = [], safe_v = True, score_v = 100\<rparr>"
  from assms(1) have 1: "snd (hate_check tbl opts c ?v0) = ?v0"
    by (auto simp: hate_check_def hate_loop_snd hate_triggered_def)
  from assms(2-4) have 2: "spam_check pf opts c ?v0 = ?v0"
    by (auto simp: spam_check_def spam_loop_eq spam_triggered_def emoji_triggered_def
        hashtags_triggered_def Let_def)
  from assms(5) have 3: "compliance_check opts c ?v0 = ?v0"
    by (auto simp: compliance_check_def misleading_loop_eq misleading_triggered_def)
  show ?thesis
    by (simp add: validate_safe validate_score validate_issues 1 2 3)
qed

lemma matches_lastIndex: "matches (p\<lparr>lastIndex := n\<rparr>) s = matches p s"
  by (simp add: matches_def exec_from_def split: option.splits)

lemma hate_first: "matches (hd INAPPROPRIATE_PATTERNS) (js ''hate'')"
  by (simp add: INAPPROPRIATE_PATTERNS_def regexp_def bounded_def matches_def exec_from_def
      js_simps canonicalize_def is_word_def)

lemma test_hate_fresh:
  "test (hd INAPPROPRIATE_PATTERNS) (js ''hate'') =
     ((hd INAPPROPRIATE_PATTERNS)\<lparr>lastIndex := 4\<rparr>, True)"
  by (simp add: INAPPROPRIATE_PATTERNS_def regexp_def bounded_def test_def exec_from_def
      js_simps canonicalize_def is_word_def)

lemma hate_loop_hit_head: "test p c = (p', True) \<Longrightarrow> fst (hate_loop (p # ps) c v) = p' # ps"
  by simp

lemma null_hashtags_request_key:
  "or_else (authorization null_hashtags_request) (x_api_key null_hashtags_request) =
     Some (js ''sk_live_1'')"
  by (simp add: null_hashtags_request_def or_else_def js_Nil_iff)

lemma null_hashtags_request_outcome:
  "POST ascii_platform demo_store demo_clock INAPPROPRIATE_PATTERNS null_hashtags_request =
     \<lparr>response = json_error 500 ''Internal server error'' ''INTERNAL_ERROR'' None,
      tracked = None,
      patterns = (hd INAPPROPRIATE_PATTERNS)\<lparr>lastIndex := 4\<rparr> # tl INAPPROPRIATE_PATTERNS\<rparr>"
proof -
  let ?b = "\<lparr>caption = js ''hate'', hashtags = Null, options = None\<rparr>"
  have "POST ascii_platform demo_store demo_clock INAPPROPRIATE_PATTERNS null_hashtags_request =
     \<lparr>response = json_error 500 ''Internal server error'' ''INTERNAL_ERROR'' None,
      tracked = None,
      patterns = fst (hate_check INAPPROPRIATE_PATTERNS
                        (case options ?b of Some x \<Rightarrow> x | None \<Rightarrow> empty_options)
                        (caption ?b) \<lparr>issues_v = [], safe_v = True, score_v = 100\<rparr>)\<rparr>"
    by (rule POST_threw [OF null_hashtags_request_key])
       (simp_all add: validate_demo rate_demo demo_clock_def null_hashtags_request_def
          js_Nil_iff js_length)
  moreover have "hd INAPPROPRIATE_PATTERNS # tl INAPPROPRIATE_PATTERNS = INAPPROPRIATE_PATTERNS"
    by (simp add: INAPPROPRIATE_PATTERNS_def)
  then have "fst (hate_loop INAPPROPRIATE_PATTERNS (js ''hate'') v) =
      (hd INAPPROPRIATE_PATTERNS)\<lparr>lastIndex := 4\<rparr> # tl INAPPROPRIATE_PATTERNS" for v
    using hate_loop_hit_head [OF test_hate_fresh, of "tl INAPPROPRIATE_PATTERNS" v] by simp
  ultimately show ?thesis
    by (simp add: hate_check_def enabled_def empty_options_def)
qed

lemma stale_patterns_eq:
  "stale_patterns = (hd INAPPROPRIATE_PATTERNS)\<lparr>lastIndex := 4\<rparr> # tl INAPPROPRIATE_PATTERNS"
  by (simp add: stale_patterns_def null_hashtags_request_outcome)

lemma stale_no_hit: "\<not> list_ex (\<lambda>p. snd (test p (js ''hate''))) stale_patterns"
  by (simp add: stale_patterns_eq INAPPROPRIATE_PATTERNS_def regexp_def bounded_def test_def
      exec_from_def js_simps canonicalize_def is_word_def is_space_def)

lemma hate_no_spam: "\<not> spam_triggered ascii_platform empty_options (js ''hate'')"
  by (simp add: spam_triggered_def SPAM_INDICATORS_def ascii_platform_def js_simps startsWith_def)

lemma hate_no_emoji: "\<not> emoji_triggered empty_options (js ''hate'')"
  by (simp add: emoji_triggered_def emoji_count_def spam_emoji_def in_range_def js_simps)

lemma hate_no_hashtags: "\<not> hashtags_triggered empty_options (js ''hate'')"
  by (simp add: hashtags_triggered_def hashtagInCaption_def match_count_def regexp_def
      exec_from_def js_simps is_word_def)

lemma hate_not_misleading: "\<not> misleading_triggered empty_options (js ''hate'')"
  by (simp add: misleading_triggered_def misleadingPatterns_def regexp_def bounded_def test_def
      exec_from_def js_simps canonicalize_def is_word_def is_space_def)

text \<open>
  C4. Every caption that matches an inappropriate-content pattern is to be flagged
  when \<open>checkHateSpeech\<close> is enabled. The handler does not ensure this, since the
  patterns are module-level objects with the \<open>g\<close> flag and \<open>test\<close> moves their
  \<open>lastIndex\<close>. A request with the caption \<open>hate\<close> and \<open>hashtags: null\<close> is answered with
  500 and leaves \<open>lastIndex = 4\<close> in the first pattern. The next request, of the
  declared type, with the caption \<open>hate\<close> and default options, matches that pattern
  and is answered with \<open>safe = true\<close>, score 100 and no issue.
\<close>

theorem stale_lastIndex_misses_hate_speech:
  "status (response (POST ascii_platform demo_store demo_clock INAPPROPRIATE_PATTERNS
      null_hashtags_request)) = 500
   \<and> map lastIndex stale_patterns = [4, 0, 0, 0]
   \<and> list_ex (\<lambda>p. matches p (js ''hate'')) stale_patterns
   \<and> enabled (checkHateSpeech empty_options)
   \<and> map_option (\<lambda>r. (safe r, score r, issues r))
        (validation (response (POST ascii_platform demo_store demo_clock stale_patterns
           (demo_request None (Some (js ''sk_live_1'')) (js ''hate''))))) = Some (True, 100, [])"
proof -
  let ?req = "demo_request None (Some (js ''sk_live_1'')) (js ''hate'')"
  let ?b = "\<lparr>caption = js ''hate'', hashtags = Undefined, options = None\<rparr>"
  have 1: "status (response (POST ascii_platform demo_store demo_clock INAPPROPRIATE_PATTERNS
      null_hashtags_request)) = 500"
    by (simp add: null_hashtags_request_outcome json_error_def)
  have 2: "map lastIndex stale_patterns = [4, 0, 0, 0]"
    by (simp add: stale_patterns_eq INAPPROPRIATE_PATTERNS_def regexp_def)
  have 3: "list_ex (\<lambda>p. matches p (js ''hate'')) stale_patterns"
    using hate_first by (simp add: stale_patterns_eq matches_lastIndex)
  have 4: "enabled (checkHateSpeech empty_options)"
    by (simp add: enabled_def empty_options_def)
  have "validation (response (POST ascii_platform demo_store demo_clock stale_patterns ?req)) =
     Some (snd (validate ascii_platform stale_patterns (caption ?b) []
                  (case options ?b of Some x \<Rightarrow> x | None \<Rightarrow> empty_options)
                  (end_time demo_clock - start_time demo_clock)))"
    by (rule POST_validation [OF demo_request_key(2)])
       (simp_all add: validate_demo rate_demo demo_clock_def demo_request_def js_Nil_iff js_length)
  moreover have "\<not> hate_triggered stale_patterns empty_options (js ''hate'')"
    using stale_no_hit by (simp add: hate_triggered_def)
  note validate_untriggered [OF this hate_no_spam hate_no_emoji hate_no_hashtags
      hate_not_misleading, of "[]" "end_time demo_clock - start_time demo_clock"]
  ultimately have 5: "map_option (\<lambda>r. (safe r, score r, issues r))
        (validation (response (POST ascii_platform demo_store demo_clock stale_patterns ?req))) =
        Some (True, 100, [])"
    by simp
  from 1 2 3 4 5 show ?thesis
    by blast
qed

section \<open>The Scorer and the Suggestion Generator: properties\<close>

text \<open>
  C9. The readability score is defined for every caption: the average divides by
  the number of sentences or by 1 if there is none, which is never 0, and the score
  is 90 exactly when the average lies in [10, 15], 70 exactly when it lies in [5, 20]
  but not in [10, 15], and 50 exactly when it lies outside [5, 20].
\<close>

theorem readability_total:
  "(of_nat (max 1 (length (sentences c))) :: rat) \<noteq> 0
   \<and> avgWordsPerSentence c = of_nat (length (words c)) / of_nat (max 1 (length (sentences c)))
   \<and> (calculateReadabilityScore c = 90 \<longleftrightarrow>
        10 \<le> avgWordsPerSentence c \<and> avgWordsPerSentence c \<le> 15)
   \<and> (calculateReadabilityScore c = 70 \<longleftrightarrow>
        \<not> (10 \<le> avgWordsPerSentence c \<and> avgWordsPerSentence c \<le> 15)
        \<and> 5 \<le> avgWordsPerSentence c \<and> avgWordsPerSentence c \<le> 20)
   \<and> (calculateReadabilityScore c = 50 \<longleftrightarrow>
        \<not> (5 \<le> avgWordsPerSentence c \<and> avgWordsPerSentence c \<le> 20))
   \<and> calculateReadabilityScore c \<in> {90, 70, 50}"
  by (auto simp: calculateReadabilityScore_def avgWordsPerSentence_def)

text \<open>A caption of three dots has one word and no sentence: the average is 1, the score 50.\<close>

lemma sentences_dots: "sentences (js ''...'') = []"
  by (simp add: sentences_def split_def js_simps regexp_def trim_def)

lemma words_dots: "words (js ''...'') = [js ''...'']"
  by (simp add: words_def split_def js_simps regexp_def is_space_def)

theorem readability_total_witness:
  "sentences (js ''...'') = [] \<and> calculateReadabilityScore (js ''...'') = 50"
proof -
  have "avgWordsPerSentence (js ''...'') = 1"
    using readability_total [of "js ''...''"] by (simp add: sentences_dots words_dots)
  then show ?thesis
    using readability_total [of "js ''...''"] by (simp add: sentences_dots)
qed

lemma unique_loop_distinct: "distinct (seen @ xs) \<Longrightarrow> unique_loop seen xs = seen @ xs"
  by (induction xs arbitrary: seen) auto

lemma trending_loop_full: "30 \<le> length xs \<Longrightarrow> trending_loop ts xs = xs"
  by (induction ts) auto

lemma optimizeHashtags_clean:
  assumes "length hs = 30" and "distinct hs"
    and "\<forall>h \<in> set hs. toLowerCase pf h = h"
    and "\<forall>h \<in> set hs. startsWith h (js ''#'')"
  shows "optimizeHashtags pf hs c = hs"
proof -
  from assms(3) have m: "map (toLowerCase pf) hs = hs"
    by (simp add: map_idI)
  from assms(2) have u: "unique_loop [] hs = hs"
    using unique_loop_distinct [of "[]" hs] by simp
  from assms(4) have f: "map (\<lambda>h. if startsWith h (js ''#'') then h else js ''#'' @ h) hs = hs"
    by (simp add: map_idI)
  from assms(1) show ?thesis
    by (simp add: optimizeHashtags_def m u f trending_loop_full)
qed

text \<open>
  C7. On a list of exactly 30 distinct hashtags, each lower-case (unchanged by
  \<open>toLowerCase\<close>) and starting with \<open>#\<close>, the optimizer returns the same set of
  hashtags, and applied to its own output it returns that output again.
\<close>

theorem optimizeHashtags_idempotent:
  assumes "length hs = 30" and "distinct hs"
    and "\<forall>h \<in> set hs. toLowerCase pf h = h"
    and "\<forall>h \<in> set hs. startsWith h (js ''#'')"
  shows "set (optimizeHashtags pf hs c) = set hs
    \<and> optimizeHashtags pf (optimizeHashtags pf hs c) c' = optimizeHashtags pf hs c"
  using assms by (simp add: optimizeHashtags_clean)

theorem optimizeHashtags_idempotent_witness:
  "set (optimizeHashtags ascii_platform thirty_tags []) = set thirty_tags
    \<and> optimizeHashtags ascii_platform (optimizeHashtags ascii_platform thirty_tags []) [] =
        optimizeHashtags ascii_platform thirty_tags []"
proof -
  have 1: "length thirty_tags = 30"
    by (simp add: thirty_tags_def)
  have 2: "distinct thirty_tags"
    by (simp add: thirty_tags_def distinct_map inj_on_def)
  have 3: "\<forall>h \<in> set thirty_tags. toLowerCase ascii_platform h = h"
    by (auto simp: thirty_tags_def ascii_platform_def)
  have 4: "\<forall>h \<in> set thirty_tags. startsWith h (js ''#'')"
    by (auto simp: thirty_tags_def startsWith_def js_def)
  show ?thesis
    by (rule optimizeHashtags_idempotent [OF 1 2 3 4])
qed

section \<open>The option predictEngagement\<close>

lemma validate_predictEngagement:
  "validate pf tbl c hs (opts\<lparr>predictEngagement := x\<rparr>) e = validate pf tbl c hs opts e"
  by (simp add: validate_def hate_check_def spam_check_def compliance_check_def)

lemma hate_check_predictEngagement:
  "hate_check tbl (opts\<lparr>predictEngagement := x\<rparr>) c v = hate_check tbl opts c v"
  by (simp add: hate_check_def)

lemma accepted_erase:
  "accepted clk (erase_predictEngagement req) kd rl v = accepted clk req kd rl v"
  by (simp add: accepted_def erase_predictEngagement_def split_beta split: option.splits)

lemma handle_body_erase:
  "handle_body pf clk tbl (erase_predictEngagement req) kd rl = handle_body pf clk tbl req kd rl"
proof (cases "body req")
  case None
  then show ?thesis
    by (simp add: handle_body_def erase_predictEngagement_def)
next
  case (Some b)
  have "handle_body pf clk tbl (erase_predictEngagement req) kd rl =
      handle_body pf clk tbl (req\<lparr>body := body (erase_predictEngagement req)\<rparr>) kd rl"
    by (simp add: handle_body_def accepted_def erase_predictEngagement_def Let_def split_beta
        split: option.splits hashtags_json.splits)
  also from Some have "\<dots> = handle_body pf clk tbl req kd rl"
    by (cases "options b")
       (simp_all add: handle_body_def accepted_def erase_predictEngagement_def
          validate_predictEngagement hate_check_predictEngagement Let_def split_beta
          split: option.splits hashtags_json.splits)
  finally show ?thesis .
qed

lemma POST_erase:
  "POST pf st clk tbl (erase_predictEngagement req) = POST pf st clk tbl req"
proof -
  have h: "authorization (erase_predictEngagement req) = authorization req"
    "x_api_key (erase_predictEngagement req) = x_api_key req"
    by (simp_all add: erase_predictEngagement_def)
  show ?thesis
    by (simp add: POST_def handle_body_erase h Let_def split: option.splits)
qed

text \<open>
  C10. Two requests that are equal once \<open>options.predictEngagement\<close> is removed from
  both, handled on the same store with the same readings of the clock, have the
  same outcome: the same response, headers included, the same tracked usage and
  the same pattern table.
\<close>

theorem predictEngagement_ignored:
  assumes "erase_predictEngagement r1 = erase_predictEngagement r2"
  shows "POST pf st clk tbl r1 = POST pf st clk tbl r2"
  using assms POST_erase [of pf st clk tbl r1] POST_erase [of pf st clk tbl r2] by simp

theorem predictEngagement_ignored_witness:
  "POST ascii_platform demo_store demo_clock INAPPROPRIATE_PATTERNS
     (demo_request None (Some (js ''sk_live_1'')) (js ''hello'')
        \<lparr>body := Some \<lparr>caption = js ''hello'', hashtags = Undefined,
                        options = Some (empty_options\<lparr>predictEngagement := Some True\<rparr>)\<rparr>\<rparr>) =
   POST ascii_platform demo_store demo_clock INAPPROPRIATE_PATTERNS
     (demo_request None (Some (js ''sk_live_1'')) (js ''hello'')
        \<lparr>body := Some \<lparr>caption = js ''hello'', hashtags = Undefined,
                        options = Some (empty_options\<lparr>predictEngagement := Some False\<rparr>)\<rparr>\<rparr>)"
  by (rule predictEngagement_ignored) (simp add: erase_predictEngagement_def)


end
